theory Spec2Isabelle
  imports Main
begin

section \<open>Python values shared by the backend modules\<close>

text \<open>
  The backend is Python: \<^verbatim>\<open>backend/main.py\<close> (the relay handlers and the session
  lifecycle) and \<^verbatim>\<open>backend/gemini_service.py\<close> (the text generation service).
  Exceptions are values of \<open>py_exception\<close>; a function that can raise returns
  \<open>py_exception + 'a\<close> with \<open>Inl\<close> for the raised exception.
  \<open>HTTPException\<close> carries its status code and its detail; \<open>StrOf e\<close> is the
  text \<^verbatim>\<open>str(e)\<close> of a caught exception, which the handlers of main.py put into
  the detail of the 500 response.
\<close>

datatype py_exception =
    ValueError
  | TypeError
  | AttributeError
  | OverflowError
  | GeminiError string
  | HTTPException nat detail
and detail =
    Detail string
  | StrOf py_exception

subsection \<open>Strings\<close>

text \<open>
  A \<open>string\<close> is a list of 8-bit characters: a Python text in UTF-8.
  \<open>contains sub s\<close> is Python's \<^verbatim>\<open>sub in s\<close>.

  \<^verbatim>\<open>str.lower\<close> is defined on all of Unicode, and the code only ever compares its
  result with ASCII words. \<open>lower\<close> therefore gives the ASCII characters of
  \<^verbatim>\<open>s.lower()\<close> exactly and leaves every other character as it is: it maps the
  26 ASCII capitals, and the two characters outside ASCII whose lower case has an ASCII
  letter, the Kelvin sign U+212A (to \<open>k\<close>) and the dotted capital I U+0130 (to \<open>i\<close>
  and the combining dot U+0307). \<open>upper\<close> is applied to the three approach names
  only and maps the ASCII letters.
\<close>

definition lower_char :: "char \<Rightarrow> char" where
  "lower_char c =
     (case map_of (zip ''ABCDEFGHIJKLMNOPQRSTUVWXYZ'' ''abcdefghijklmnopqrstuvwxyz'') c of
        Some l \<Rightarrow> l
      | None \<Rightarrow> c)"

definition upper_char :: "char \<Rightarrow> char" where
  "upper_char c =
     (case map_of (zip ''abcdefghijklmnopqrstuvwxyz'' ''ABCDEFGHIJKLMNOPQRSTUVWXYZ'') c of
        Some u \<Rightarrow> u
      | None \<Rightarrow> c)"

fun startswith :: "string \<Rightarrow> string \<Rightarrow> bool" where
  "startswith s [] = True"
| "startswith [] (p # ps) = False"
| "startswith (c # cs) (p # ps) = (c = p \<and> startswith cs ps)"

definition kelvin_sign :: string where
  "kelvin_sign = [CHR 0xE2, CHR 0x84, CHR 0xAA]"

definition dotted_capital_i :: string where
  "dotted_capital_i = [CHR 0xC4, CHR 0xB0]"

function lower :: "string \<Rightarrow> string" where
  "lower [] = []"
| "lower (c # cs) =
     (if startswith (c # cs) kelvin_sign then CHR ''k'' # lower (drop 2 cs)
      else if startswith (c # cs) dotted_capital_i then
        CHR ''i'' # CHR 0xCC # CHR 0x87 # lower (drop 1 cs)
      else lower_char c # lower cs)"
  by pat_completeness auto
termination
  by (relation "measure length") auto

definition upper :: "string \<Rightarrow> string" where
  "upper s = map upper_char s"

fun contains :: "string \<Rightarrow> string \<Rightarrow> bool" where
  "contains sub [] = (sub = [])"
| "contains sub (c # cs) = (startswith (c # cs) sub \<or> contains sub cs)"

definition nl :: string where
  "nl = [CHR 0x0A]"

text \<open>The rupee sign U+20B9 of the source's texts, in UTF-8.\<close>

definition rupee :: string where
  "rupee = [CHR 0xE2, CHR 0x82, CHR 0xB9]"

subsection \<open>Number formatting: the format specification \<^verbatim>\<open>{n:,}\<close>\<close>

definition digit_char :: "nat \<Rightarrow> char" where
  "digit_char d = ''0123456789'' ! d"

function digits :: "nat \<Rightarrow> string" where
  "digits n = (if n < 10 then [digit_char n] else digits (n div 10) @ [digit_char (n mod 10)])"
  by pat_completeness auto
termination
  by (relation "measure (\<lambda>n. n)") auto

text \<open>
  \<open>group3\<close> works on the reversed digit string: after every third digit that has a
  digit after it, a comma.
\<close>

fun group3 :: "string \<Rightarrow> string" where
  "group3 (a # b # c # d # rest) = a # b # c # CHR '','' # group3 (d # rest)"
| "group3 ds = ds"

definition format_comma :: "int \<Rightarrow> string" where
  "format_comma n =
     (if n < 0 then CHR ''-'' # rev (group3 (rev (digits (nat (- n)))))
      else rev (group3 (rev (digits (nat n)))))"

subsection \<open>The floating point product \<^verbatim>\<open>int(n * 1.15)\<close>\<close>

text \<open>
  Python converts the integer to a double (53 significant bits, round half to even;
  \<^verbatim>\<open>OverflowError\<close> from \<open>2 ^ 1024\<close> on), multiplies by the double nearest to 1.15,
  which is \<open>5179139571476070 / 2 ^ 52\<close>, rounds the product the same way, and
  \<^verbatim>\<open>int\<close> cuts the fraction off (an infinite product raises \<^verbatim>\<open>OverflowError\<close>).
  \<open>round_half_even a k\<close> is \<open>a / 2 ^ k\<close> rounded to an integer.
\<close>

function bit_length :: "nat \<Rightarrow> nat" where
  "bit_length n = (if n = 0 then 0 else Suc (bit_length (n div 2)))"
  by pat_completeness auto
termination
  by (relation "measure (\<lambda>n. n)") auto

definition round_half_even :: "nat \<Rightarrow> nat \<Rightarrow> nat" where
  "round_half_even a k =
     (if k = 0 then a
      else (let q = a div 2 ^ k; r = a mod 2 ^ k; half = 2 ^ (k - 1)
            in if half < r \<or> (r = half \<and> odd q) then q + 1 else q))"

definition float_of_nat :: "nat \<Rightarrow> py_exception + nat" where
  "float_of_nat n =
     (let k = bit_length n - 53; f = round_half_even n k * 2 ^ k
      in if 2 ^ 1024 \<le> f then Inl OverflowError else Inr f)"

definition int_of_product :: "nat \<Rightarrow> py_exception + nat" where
  "int_of_product f =
     (let a = f * 5179139571476070; k = bit_length a - 53; p = round_half_even a k * 2 ^ k
      in if 2 ^ 1024 * 2 ^ 52 \<le> p then Inl OverflowError else Inr (p div 2 ^ 52))"

definition float_times_1_15 :: "int \<Rightarrow> py_exception + int" where
  "float_times_1_15 n =
     (case float_of_nat (nat \<bar>n\<bar>) of
        Inl exc \<Rightarrow> Inl exc
      | Inr f \<Rightarrow>
          (case int_of_product f of
             Inl exc \<Rightarrow> Inl exc
           | Inr v \<Rightarrow> Inr (if n < 0 then - int v else int v)))"

section \<open>The data model (models.py)\<close>

text \<open>
  Modelled from the spec: \<^verbatim>\<open>models.py\<close> is not among the sources. The enum
  \<open>NegotiationApproach\<close> has the three members gemini_service.py names
  (\<^verbatim>\<open>ASSERTIVE\<close>, \<^verbatim>\<open>DIPLOMATIC\<close>, \<^verbatim>\<open>CONSIDERATE\<close>); their values are the
  closed set \<open>{assertive, diplomatic, considerate}\<close> of the specification.
  \<open>NegotiationApproach_of\<close> is the enum's constructor by value, which raises
  \<^verbatim>\<open>ValueError\<close> on any other text.
\<close>

datatype NegotiationApproach = ASSERTIVE | DIPLOMATIC | CONSIDERATE

fun approach_value :: "NegotiationApproach \<Rightarrow> string" where
  "approach_value ASSERTIVE = ''assertive''"
| "approach_value DIPLOMATIC = ''diplomatic''"
| "approach_value CONSIDERATE = ''considerate''"

definition NegotiationApproach_of :: "string \<Rightarrow> py_exception + NegotiationApproach" where
  "NegotiationApproach_of v =
     (if v = ''assertive'' then Inr ASSERTIVE
      else if v = ''diplomatic'' then Inr DIPLOMATIC
      else if v = ''considerate'' then Inr CONSIDERATE
      else Inl ValueError)"

text \<open>
  The \<^verbatim>\<open>approach\<close> parameter of the service "can be string or NegotiationApproach
  enum" (the comment on the parameter).
\<close>

datatype approach_arg = Str string | Enum NegotiationApproach

text \<open>
  Modelled from the spec: the classes \<open>ChatMessage\<close> and \<open>Product\<close> of models.py,
  with the fields main.py passes to the constructor of \<open>ChatMessage\<close> and the
  fields of \<open>Product\<close> that gemini_service.py reads. The field \<^verbatim>\<open>id\<close> of a message
  is \<open>message_id\<close> here (\<open>id\<close> is the identity function of HOL). A timestamp is a
  point of time, a natural number.
\<close>

record ChatMessage =
  message_id :: string
  session_id :: string
  sender :: string
  content :: string
  timestamp :: nat
  sender_type :: string

record Product =
  title :: string
  price :: int
  condition :: string
  seller_name :: string
  location :: string

section \<open>The text generation service (gemini_service.py)\<close>

text \<open>
  \<^verbatim>\<open>self.model\<close> is the configured client or \<^verbatim>\<open>None\<close> (when
  \<^verbatim>\<open>setup_client\<close> failed). The client is named by its model name.
\<close>

datatype GenerativeModel = GenerativeModel string

record GeminiAIService =
  api_key :: string
  model :: "GenerativeModel option"

text \<open>
  Lines 36-40 of \<^verbatim>\<open>generate_response\<close> and lines 168-172 of
  \<^verbatim>\<open>_get_fallback_response\<close>: a string is converted to the enum, and a string
  that is no value of the enum becomes \<open>DIPLOMATIC\<close>.
\<close>

definition convert_approach :: "approach_arg \<Rightarrow> NegotiationApproach" where
  "convert_approach approach =
     (case approach of
        Enum e \<Rightarrow> e
      | Str s \<Rightarrow> (case NegotiationApproach_of (lower s) of
                    Inr e \<Rightarrow> e
                  | Inl _ \<Rightarrow> DIPLOMATIC))"

record strategy =
  style :: string
  tactics :: string
  personality :: string

fun approach_strategies :: "NegotiationApproach \<Rightarrow> strategy" where
  "approach_strategies ASSERTIVE =
     \<lparr>style = ''direct and confident'',
      tactics = ''Make firm offers, emphasize market research, be persistent but polite'',
      personality = ''business-like and decisive''\<rparr>"
| "approach_strategies DIPLOMATIC =
     \<lparr>style = ''balanced and respectful'',
      tactics = ''Find mutual benefits, acknowledge seller's position, propose win-win solutions'',
      personality = ''professional and understanding''\<rparr>"
| "approach_strategies CONSIDERATE =
     \<lparr>style = ''empathetic and budget-conscious'',
      tactics = ''Explain budget constraints, show genuine interest, be patient'',
      personality = ''humble and appreciative''\<rparr>"

definition seller_messages_of :: "ChatMessage list \<Rightarrow> ChatMessage list" where
  "seller_messages_of chat_history = filter (\<lambda>msg. sender msg = ''seller'') chat_history"

definition history_line :: "ChatMessage \<Rightarrow> string" where
  "history_line msg =
     (if sender msg = ''seller'' then ''Seller'' else ''You (Buyer)'') @ '': '' @ content msg @ nl"

text \<open>
  \<^verbatim>\<open>_build_negotiation_context\<close>: the prompt. \<^verbatim>\<open>db.get_product\<close> can give
  \<^verbatim>\<open>None\<close> for the product; the first field read of it then raises
  \<^verbatim>\<open>AttributeError\<close>.
\<close>

definition build_negotiation_context ::
  "NegotiationApproach \<Rightarrow> int \<Rightarrow> int \<Rightarrow> ChatMessage list \<Rightarrow> Product option
     \<Rightarrow> py_exception + string" where
  "build_negotiation_context approach target_price max_budget chat_history product =
     (let seller_messages = seller_messages_of chat_history;
          last_seller_message = (if seller_messages \<noteq> [] then content (last seller_messages) else []);
          conversation_history = concat (map history_line (drop (length chat_history - 6) chat_history));
          strat = approach_strategies approach
      in case product of
           None \<Rightarrow> Inl AttributeError
         | Some p \<Rightarrow> Inr (
             nl @ ''You are an AI negotiation agent representing a buyer who wants to purchase: ''
               @ title p @ nl
             @ nl
             @ ''PRODUCT DETAILS:'' @ nl
             @ ''- Current asking price: '' @ rupee @ format_comma (price p) @ nl
             @ ''- Your target price: '' @ rupee @ format_comma target_price @ nl
             @ ''- Your maximum budget: '' @ rupee @ format_comma max_budget @ nl
             @ ''- Product condition: '' @ condition p @ nl
             @ ''- Seller: '' @ seller_name p @ nl
             @ ''- Location: '' @ location p @ nl
             @ nl
             @ ''NEGOTIATION APPROACH: '' @ upper (approach_value approach) @ nl
             @ ''- Style: '' @ style strat @ nl
             @ ''- Tactics: '' @ tactics strat @ nl
             @ ''- Personality: '' @ personality strat @ nl
             @ nl
             @ ''CONVERSATION HISTORY:'' @ nl
             @ conversation_history @ nl
             @ nl
             @ ''LATEST SELLER MESSAGE: '' @ [CHR 0x22] @ last_seller_message @ [CHR 0x22] @ nl
             @ nl
             @ ''INSTRUCTIONS:'' @ nl
             @ ''1. Respond as a human buyer (never mention you're an AI)'' @ nl
             @ ''2. Use the '' @ approach_value approach @ '' negotiation approach consistently'' @ nl
             @ ''3. Stay within your budget constraints (max '' @ rupee @ format_comma max_budget @ '')'' @ nl
             @ ''4. Work towards your target price of '' @ rupee @ format_comma target_price @ nl
             @ ''5. Keep responses conversational and natural (50-80 words)'' @ nl
             @ ''6. Include relevant details about pickup/payment when appropriate'' @ nl
             @ ''7. Be respectful but persistent in negotiations'' @ nl
             @ ''8. If the seller's price is too high, explain your position clearly'' @ nl
             @ ''9. If a good deal is reached, move towards closing (exchange contact details)'' @ nl
             @ nl
             @ ''CURRENT SITUATION ANALYSIS:'' @ nl
             @ ''- Current offer/price being discussed: Look at the conversation'' @ nl
             @ ''- Progress towards target: Calculate if you're getting closer'' @ nl
             @ ''- Seller's flexibility: Assess from their responses'' @ nl
             @ nl
             @ ''Generate your next response as the buyer:'' @ nl))"

text \<open>
  \<^verbatim>\<open>_call_gemini_api\<close> runs the client's \<^verbatim>\<open>generate_content\<close> in a thread pool and
  returns the stripped text of the response, or re-raises what the call raised. The
  outcome of the call on a prompt is the environment's: a parameter \<open>api\<close> of the
  model, of this type.
\<close>

type_synonym gemini_api = "string \<Rightarrow> py_exception + string"

text \<open>
  \<^verbatim>\<open>_get_fallback_response\<close>: the canned replies, chosen by keywords of the last
  seller message. \<^verbatim>\<open>int(target_price * 1.15)\<close> is a floating point product: it is
  the parameter \<open>scale\<close>, which gives the integer, or the exception of the product
  (\<^verbatim>\<open>OverflowError\<close> when the price is too large for a float);
  \<open>float_times_1_15\<close> is the function Python computes. A branch whose text names
  the seller reads \<^verbatim>\<open>product.seller_name\<close>, which raises \<^verbatim>\<open>AttributeError\<close> when
  the product is \<^verbatim>\<open>None\<close>; the other branches never look at the product. The reply
  to a question about the condition is no f-string in the source: its braces are
  returned as they are.
\<close>

definition naming_seller :: "Product option \<Rightarrow> (string \<Rightarrow> string) \<Rightarrow> py_exception + string" where
  "naming_seller product reply =
     (case product of None \<Rightarrow> Inl AttributeError | Some p \<Rightarrow> Inr (reply (seller_name p)))"

definition get_fallback_response ::
  "(int \<Rightarrow> py_exception + int) \<Rightarrow> approach_arg \<Rightarrow> int \<Rightarrow> ChatMessage list \<Rightarrow> Product option
     \<Rightarrow> py_exception + string" where
  "get_fallback_response scale approach0 target_price chat_history product =
     (let approach = convert_approach approach0;
          seller_messages = seller_messages_of chat_history
      in if seller_messages = [] then
           (if approach = ASSERTIVE then
              naming_seller product (\<lambda>name. ''Hello '' @ name
                @ ''! I'm interested in your listing. Based on current market rates, I'd like to offer ''
                @ rupee @ format_comma target_price @ ''. Is this acceptable?'')
            else if approach = DIPLOMATIC then
              naming_seller product (\<lambda>name. ''Good day '' @ name
                @ ''! I'm very interested in your product. Would you consider an offer of ''
                @ rupee @ format_comma target_price
                @ ''? I believe it's a fair price given the current market.'')
            else
              naming_seller product (\<lambda>name. ''Hi '' @ name
                @ ''! I'm really interested in your listing. My budget is a bit tight at ''
                @ rupee @ format_comma target_price @ ''. Would this work for you?''))
         else
           (let last_message = lower (content (last seller_messages)) in
            if contains ''hi'' last_message \<or> contains ''hello'' last_message
                \<or> contains ''available'' last_message then
              (if approach = ASSERTIVE then
                 naming_seller product (\<lambda>name. ''Hello '' @ name
                   @ ''! Yes, I'm very interested. I can offer '' @ rupee @ format_comma target_price
                   @ '' for immediate purchase. When can we meet?'')
               else if approach = DIPLOMATIC then
                 naming_seller product (\<lambda>name. ''Hi there '' @ name
                   @ ''! Yes, I'm interested in your listing. The item looks great. Would ''
                   @ rupee @ format_comma target_price @ '' work for you?'')
               else
                 naming_seller product (\<lambda>name. ''Hello '' @ name
                   @ ''! Yes, I'm interested. I'm hoping to stay within '' @ rupee
                   @ format_comma target_price @ '' if possible. Could we work something out?''))
            else if contains ''price'' last_message \<or> contains ''cost'' last_message
                \<or> contains ''amount'' last_message then
              (if approach = ASSERTIVE then
                 Inr (''Based on market research, '' @ rupee @ format_comma target_price
                   @ '' is what I can offer. It's competitive and fair.'')
               else if approach = DIPLOMATIC then
                 Inr (''I've been looking at similar items, and '' @ rupee @ format_comma target_price
                   @ '' seems reasonable. What do you think?'')
               else
                 Inr (''I understand the value, but my budget is limited to '' @ rupee
                   @ format_comma target_price @ ''. Is there any flexibility?''))
            else if contains ''no'' last_message \<or> contains ''cannot'' last_message
                \<or> contains ''firm'' last_message \<or> contains ''minimum'' last_message then
              (case scale target_price of
                 Inl exc \<Rightarrow> Inl exc
               | Inr scaled \<Rightarrow>
                   (let counter_offer = min scaled (target_price + 5000) in
                    if approach = ASSERTIVE then
                      Inr (''I understand. Let me stretch my budget to '' @ rupee
                        @ format_comma counter_offer @ ''. This is really my maximum.'')
                    else if approach = DIPLOMATIC then
                      Inr (''I appreciate your position. Could we perhaps meet at '' @ rupee
                        @ format_comma counter_offer @ ''? That would really help both of us.'')
                    else
                      Inr (''I really want this item. Could you please consider '' @ rupee
                        @ format_comma counter_offer @ ''? It would mean a lot to me.'')))
            else if contains ''yes'' last_message \<or> contains ''okay'' last_message
                \<or> contains ''accept'' last_message \<or> contains ''deal'' last_message then
              Inr ''Excellent! That works perfectly for me. When would be convenient for pickup? I can arrange payment immediately.''
            else if contains ''meet'' last_message \<or> contains ''pickup'' last_message
                \<or> contains ''delivery'' last_message then
              Inr ''Perfect! I'm flexible with timing. I can come today or tomorrow, whatever works best for you. Should I bring cash or is online transfer preferred?''
            else if contains ''condition'' last_message \<or> contains ''working'' last_message
                \<or> contains ''problem'' last_message then
              Inr (''Thank you for the details. As long as everything is as described, I'm happy to proceed with ''
                @ rupee @ ''{target_price:,}. Can we finalize this?'')
            else
              (if approach = ASSERTIVE then
                 Inr (''Let me be direct - I can offer '' @ rupee @ format_comma target_price
                   @ '' and arrange pickup today. This is a fair market price.'')
               else if approach = DIPLOMATIC then
                 Inr (''I've researched similar listings and '' @ rupee @ format_comma target_price
                   @ '' seems to be the going rate. Would you consider this offer?'')
               else
                 Inr (''I'm really hoping we can work something out at '' @ rupee
                   @ format_comma target_price @ ''. This would really help with my budget constraints.''))))"

text \<open>
  A call of \<^verbatim>\<open>_get_fallback_response\<close> binds its arguments to the four required
  parameters \<^verbatim>\<open>approach, target_price, chat_history, product\<close> before the body
  runs. \<open>product_arg\<close> is \<open>Some product\<close> when the call passes the fourth argument
  and \<open>None\<close> when the call leaves it out: Python then raises \<^verbatim>\<open>TypeError\<close>
  (a required positional argument is missing).
\<close>

definition call_get_fallback_response ::
  "(int \<Rightarrow> py_exception + int) \<Rightarrow> approach_arg \<Rightarrow> int \<Rightarrow> ChatMessage list \<Rightarrow> Product option option
     \<Rightarrow> py_exception + string" where
  "call_get_fallback_response scale approach target_price chat_history product_arg =
     (case product_arg of
        None \<Rightarrow> Inl TypeError
      | Some product \<Rightarrow> get_fallback_response scale approach target_price chat_history product)"

text \<open>
  \<^verbatim>\<open>generate_response\<close>. Line 43 passes the product to the fallback; line 57, in
  the handler of an exception of the prompt construction or of the API call, passes
  three arguments only.
\<close>

definition generate_response ::
  "gemini_api \<Rightarrow> (int \<Rightarrow> py_exception + int) \<Rightarrow> GeminiAIService \<Rightarrow> approach_arg \<Rightarrow> int \<Rightarrow> int
     \<Rightarrow> ChatMessage list \<Rightarrow> Product option \<Rightarrow> py_exception + string" where
  "generate_response api scale self approach0 target_price max_budget chat_history product =
     (let approach = convert_approach approach0 in
      if model self = None then
        call_get_fallback_response scale (Enum approach) target_price chat_history (Some product)
      else
        (case build_negotiation_context approach target_price max_budget chat_history product of
           Inl e \<Rightarrow> call_get_fallback_response scale (Enum approach) target_price chat_history None
         | Inr context \<Rightarrow>
             (case api context of
                Inl e \<Rightarrow> call_get_fallback_response scale (Enum approach) target_price chat_history None
              | Inr response \<Rightarrow> Inr response)))"

section \<open>Sessions and the collaborators of main.py\<close>

text \<open>
  JSON values: the payloads handed to the connection manager and the \<^verbatim>\<open>result\<close>
  of a finished negotiation are Python dicts. A dict is an association list, read
  with \<open>map_of\<close>; \<open>JIso t\<close> is the ISO text of the time point \<open>t\<close>
  (\<^verbatim>\<open>timestamp.isoformat()\<close>).
\<close>

datatype json = JNum int | JStr string | JIso nat | JObj "(string \<times> json) list"

type_synonym pydict = "(string \<times> json) list"

text \<open>
  Modelled from the spec: the classes \<open>NegotiationParams\<close> and
  \<open>NegotiationSession\<close> of models.py, with the fields main.py reads and writes.
  The session's \<^verbatim>\<open>id\<close>, \<^verbatim>\<open>product_id\<close> and \<^verbatim>\<open>outcome\<close> are \<open>session_ident\<close>,
  \<open>session_product_id\<close> and \<open>session_outcome\<close> here. The final price, the outcome
  and the time of the end are optional and "set only on completion":
  \<^verbatim>\<open>start_negotiation\<close> does not pass them, so they start as \<^verbatim>\<open>None\<close>.
\<close>

record NegotiationParams =
  product_id :: string
  target_price :: int
  max_budget :: int
  approach :: approach_arg

record NegotiationSession =
  session_ident :: string
  session_product_id :: string
  user_params :: NegotiationParams
  status :: string
  created_at :: nat
  messages :: "ChatMessage list"
  final_price :: "json option"
  session_outcome :: "json option"
  ended_at :: "nat option"

text \<open>
  Modelled from the spec: \<^verbatim>\<open>JSONDatabase\<close> of database.py, the persistence
  collaborator (\<^verbatim>\<open>SaveSession(session)\<close>, \<^verbatim>\<open>GetProduct(id)\<close> giving the descriptor
  or not-found). It stores the sessions by their identifier and holds the catalogue.
\<close>

record JSONDatabase =
  products :: "string \<rightharpoonup> Product"
  sessions :: "string \<rightharpoonup> NegotiationSession"

definition save_session :: "NegotiationSession \<Rightarrow> JSONDatabase \<Rightarrow> JSONDatabase" where
  "save_session session d = d\<lparr>sessions := (sessions d)(session_ident session \<mapsto> session)\<rparr>"

definition get_product :: "JSONDatabase \<Rightarrow> string \<Rightarrow> Product option" where
  "get_product d pid = products d pid"

text \<open>
  Modelled from the spec: \<^verbatim>\<open>ConnectionManager\<close> of websocket_manager.py, the
  Connection Registry. Per session it holds at most one endpoint for the user side and
  one for the seller side; attaching replaces the endpoint of that slot.
  \<^verbatim>\<open>Send(sessionId, role, payload)\<close> "delivers payload to the currently-registered
  endpoint for (session, role); if none is registered, the send is dropped and reported
  to the caller as peer absent (not a fatal error)". A send gives its caller the
  result: \<open>Inr\<close> with what became of the payload, where a method that raised would
  give \<open>Inl\<close> with the exception. \<open>sent\<close> is the record of all calls of Send in
  their order, each with the role, the session, the payload and what became of it.
\<close>

type_synonym WebSocket = nat

datatype role = UserSide | SellerSide

datatype delivery = Delivered WebSocket | PeerAbsent

datatype send = Send role string json delivery

record ConnectionManager =
  user_connections :: "string \<rightharpoonup> WebSocket"
  seller_connections :: "string \<rightharpoonup> WebSocket"
  sent :: "send list"

definition connect_user :: "WebSocket \<Rightarrow> string \<Rightarrow> ConnectionManager \<Rightarrow> ConnectionManager" where
  "connect_user websocket sid m = m\<lparr>user_connections := (user_connections m)(sid \<mapsto> websocket)\<rparr>"

definition connect_seller :: "WebSocket \<Rightarrow> string \<Rightarrow> ConnectionManager \<Rightarrow> ConnectionManager" where
  "connect_seller websocket sid m = m\<lparr>seller_connections := (seller_connections m)(sid \<mapsto> websocket)\<rparr>"

definition attempt :: "WebSocket option \<Rightarrow> delivery" where
  "attempt slot = (case slot of None \<Rightarrow> PeerAbsent | Some websocket \<Rightarrow> Delivered websocket)"

type_synonym send_result = "py_exception + delivery"

definition send_to_user ::
  "string \<Rightarrow> json \<Rightarrow> ConnectionManager \<Rightarrow> send_result \<times> ConnectionManager" where
  "send_to_user sid payload m =
     (Inr (attempt (user_connections m sid)),
      m\<lparr>sent := sent m @ [Send UserSide sid payload (attempt (user_connections m sid))]\<rparr>)"

definition send_to_seller ::
  "string \<Rightarrow> json \<Rightarrow> ConnectionManager \<Rightarrow> send_result \<times> ConnectionManager" where
  "send_to_seller sid payload m =
     (Inr (attempt (seller_connections m sid)),
      m\<lparr>sent := sent m @ [Send SellerSide sid payload (attempt (seller_connections m sid))]\<rparr>)"

section \<open>The process state and its environment\<close>

text \<open>
  The module-level objects of main.py: \<^verbatim>\<open>active_sessions\<close>, \<^verbatim>\<open>db\<close>,
  \<^verbatim>\<open>manager\<close> and \<^verbatim>\<open>ai_service\<close>. Three counters number the calls of
  \<^verbatim>\<open>datetime.now()\<close>, of \<^verbatim>\<open>uuid.uuid4()\<close> and of
  \<^verbatim>\<open>ai_service.generate_response\<close> made so far. \<open>trace\<close> lists, in the order
  in which the statements run, the two kinds of effect the relay has: a message
  appended to the history of a session (\<^verbatim>\<open>session.messages.append\<close>), and a call
  of Send with its result.

  What the environment answers is the record \<open>env\<close>: \<open>clock env n\<close> is the reading
  of the wall clock at the \<open>n\<close>-th call of \<^verbatim>\<open>datetime.now()\<close>, \<open>uuid4 env n\<close>
  the \<open>n\<close>-th identifier, \<open>gemini env n\<close> the behaviour of the API during the
  \<open>n\<close>-th call of \<^verbatim>\<open>generate_response\<close>, and \<open>times_1_15 env\<close> the floating
  point computation \<^verbatim>\<open>int(target_price * 1.15)\<close>.

  Every handler is a coroutine. Here a handler runs from its entry to its return with
  no other handler in between.
\<close>

datatype effect =
    Appended string ChatMessage
  | Sending role string json send_result

record world =
  active_sessions :: "string \<rightharpoonup> NegotiationSession"
  db :: JSONDatabase
  manager :: ConnectionManager
  ai_service :: GeminiAIService
  now_calls :: nat
  uuid_calls :: nat
  generate_calls :: nat
  trace :: "effect list"

record env =
  clock :: "nat \<Rightarrow> nat"
  uuid4 :: "nat \<Rightarrow> string"
  gemini :: "nat \<Rightarrow> gemini_api"
  times_1_15 :: "int \<Rightarrow> py_exception + int"

definition datetime_now :: "env \<Rightarrow> world \<Rightarrow> nat \<times> world" where
  "datetime_now e w = (clock e (now_calls w), w\<lparr>now_calls := Suc (now_calls w)\<rparr>)"

definition new_uuid :: "env \<Rightarrow> world \<Rightarrow> string \<times> world" where
  "new_uuid e w = (uuid4 e (uuid_calls w), w\<lparr>uuid_calls := Suc (uuid_calls w)\<rparr>)"

text \<open>
  The call of \<^verbatim>\<open>ai_service.generate_response\<close> in \<^verbatim>\<open>handle_seller_message\<close>
  (lines 239-245), with its arguments read from the session and the product looked up
  in the database.
\<close>

definition generation :: "env \<Rightarrow> NegotiationSession \<Rightarrow> world \<Rightarrow> py_exception + string" where
  "generation e session w =
     generate_response (gemini e (generate_calls w)) (times_1_15 e) (ai_service w)
       (approach (user_params session)) (target_price (user_params session))
       (max_budget (user_params session)) (messages session)
       (get_product (db w) (session_product_id session))"

definition serialize_message :: "ChatMessage \<Rightarrow> pydict" where
  "serialize_message message =
     [(''id'', JStr (message_id message)),
      (''session_id'', JStr (session_id message)),
      (''sender'', JStr (sender message)),
      (''content'', JStr (content message)),
      (''timestamp'', JIso (timestamp message)),
      (''sender_type'', JStr (sender_type message))]"

text \<open>
  The inbound event of a handler is the dict \<^verbatim>\<open>message_data\<close> with text values
  (the transport hands over \<^verbatim>\<open>{content: text}\<close>);
  \<open>get_content\<close> is \<^verbatim>\<open>message_data.get("content", "")\<close>.
\<close>

definition get_content :: "(string \<times> string) list \<Rightarrow> string" where
  "get_content message_data = (case map_of message_data ''content'' of None \<Rightarrow> [] | Some c \<Rightarrow> c)"

text \<open>
  \<^verbatim>\<open>session = active_sessions[session_id]\<close> is a reference to the object in the
  store: a mutation of \<^verbatim>\<open>session\<close> is an update of the store at \<open>sid\<close>.
  \<open>append_message\<close> is \<^verbatim>\<open>session.messages.append(message)\<close>; \<open>to_user\<close> and
  \<open>to_seller\<close> are the awaited calls \<^verbatim>\<open>manager.send_to_user\<close> and
  \<^verbatim>\<open>manager.send_to_seller\<close>, which give the result of the send.
\<close>

definition put_session :: "string \<Rightarrow> NegotiationSession \<Rightarrow> world \<Rightarrow> world" where
  "put_session sid session w = w\<lparr>active_sessions := (active_sessions w)(sid \<mapsto> session)\<rparr>"

definition append_message :: "string \<Rightarrow> NegotiationSession \<Rightarrow> ChatMessage \<Rightarrow> world \<Rightarrow> world" where
  "append_message sid session message w =
     w\<lparr>active_sessions :=
          (active_sessions w)(sid \<mapsto> session\<lparr>messages := messages session @ [message]\<rparr>),
       trace := trace w @ [Appended sid message]\<rparr>"

definition to_user :: "string \<Rightarrow> json \<Rightarrow> world \<Rightarrow> send_result \<times> world" where
  "to_user sid payload w =
     (case send_to_user sid payload (manager w) of
        (r, m) \<Rightarrow> (r, w\<lparr>manager := m, trace := trace w @ [Sending UserSide sid payload r]\<rparr>))"

definition to_seller :: "string \<Rightarrow> json \<Rightarrow> world \<Rightarrow> send_result \<times> world" where
  "to_seller sid payload w =
     (case send_to_seller sid payload (manager w) of
        (r, m) \<Rightarrow> (r, w\<lparr>manager := m, trace := trace w @ [Sending SellerSide sid payload r]\<rparr>))"

definition db_save :: "NegotiationSession \<Rightarrow> world \<Rightarrow> world" where
  "db_save session w = w\<lparr>db := save_session session (db w)\<rparr>"

section \<open>The relay handlers (main.py)\<close>

text \<open>
  A handler returns \<^verbatim>\<open>None\<close> or raises. An exception of a send outside a
  \<^verbatim>\<open>try\<close> leaves the handler at that statement, with the state as it then is; the
  exceptions of \<^verbatim>\<open>generate_response\<close> and of the two sends inside the \<^verbatim>\<open>try\<close>
  of \<^verbatim>\<open>handle_seller_message\<close> go to its \<^verbatim>\<open>except\<close> clause. The database keeps
  its contract (a save stores and returns).
\<close>

datatype outcome = Returned | Raised py_exception

definition message_payload :: "string \<Rightarrow> ChatMessage \<Rightarrow> string \<Rightarrow> json" where
  "message_payload kind message label =
     JObj [(''type'', JStr kind), (''message'', JObj (serialize_message message)), (''sender'', JStr label)]"

definition error_payload :: json where
  "error_payload = JObj [(''type'', JStr ''error''), (''message'', JStr ''Failed to generate AI response'')]"

definition handle_user_message ::
  "env \<Rightarrow> string \<Rightarrow> (string \<times> string) list \<Rightarrow> world \<Rightarrow> outcome \<times> world" where
  "handle_user_message e sid message_data w =
     (case active_sessions w sid of
        None \<Rightarrow> (Returned, w)
      | Some session \<Rightarrow>
          (let (u, w1) = new_uuid e w;
               (t, w2) = datetime_now e w1;
               message = \<lparr>message_id = u, session_id = sid, sender = ''user'',
                          content = get_content message_data, timestamp = t,
                          sender_type = ''override''\<rparr>;
               session1 = session\<lparr>messages := messages session @ [message]\<rparr>;
               w3 = append_message sid session message w2;
               (r, w4) = to_seller sid (message_payload ''message'' message ''buyer'') w3
           in case r of
                Inl exc \<Rightarrow> (Raised exc, w4)
              | Inr d \<Rightarrow> (Returned, db_save session1 w4)))"

text \<open>
  The \<^verbatim>\<open>except\<close> clause of \<^verbatim>\<open>handle_seller_message\<close> (lines 274-280) and the
  save after it: the error goes to the user side, and the session is saved as it is at
  that point.
\<close>

definition report_failure :: "string \<Rightarrow> NegotiationSession \<Rightarrow> world \<Rightarrow> outcome \<times> world" where
  "report_failure sid session w =
     (let (r, w1) = to_user sid error_payload w
      in case r of
           Inl exc \<Rightarrow> (Raised exc, w1)
         | Inr d \<Rightarrow> (Returned, db_save session w1))"

definition handle_seller_message ::
  "env \<Rightarrow> string \<Rightarrow> (string \<times> string) list \<Rightarrow> world \<Rightarrow> outcome \<times> world" where
  "handle_seller_message e sid message_data w =
     (case active_sessions w sid of
        None \<Rightarrow> (Returned, w)
      | Some session \<Rightarrow>
          (let (u, w1) = new_uuid e w;
               (t, w2) = datetime_now e w1;
               seller_message = \<lparr>message_id = u, session_id = sid, sender = ''seller'',
                                 content = get_content message_data, timestamp = t,
                                 sender_type = ''human''\<rparr>;
               session1 = session\<lparr>messages := messages session @ [seller_message]\<rparr>;
               w3 = append_message sid session seller_message w2;
               (r1, w4) = to_user sid (message_payload ''message'' seller_message ''seller'') w3
           in case r1 of
                Inl exc \<Rightarrow> (Raised exc, w4)
              | Inr d1 \<Rightarrow>
                  (let r = generation e session1 w4;
                       w5 = w4\<lparr>generate_calls := Suc (generate_calls w4)\<rparr>
                   in case r of
                        Inl exc \<Rightarrow> report_failure sid session1 w5
                      | Inr ai_response \<Rightarrow>
                          (let (u', w6) = new_uuid e w5;
                               (t', w7) = datetime_now e w6;
                               ai_message = \<lparr>message_id = u', session_id = sid, sender = ''ai'',
                                             content = ai_response, timestamp = t',
                                             sender_type = ''ai''\<rparr>;
                               session2 = session1\<lparr>messages := messages session1 @ [ai_message]\<rparr>;
                               w8 = append_message sid session1 ai_message w7;
                               (r2, w9) = to_seller sid
                                            (message_payload ''message'' ai_message ''buyer'') w8
                           in case r2 of
                                Inl exc \<Rightarrow> report_failure sid session2 w9
                              | Inr d2 \<Rightarrow>
                                  (let (r3, w10) = to_user sid
                                         (message_payload ''ai_response'' ai_message ''ai'') w9
                                   in case r3 of
                                        Inl exc \<Rightarrow> report_failure sid session2 w10
                                      | Inr d3 \<Rightarrow> (Returned, db_save session2 w10))))))"

section \<open>The session lifecycle (main.py)\<close>

record start_response =
  response_session_id :: string
  response_message :: string
  response_product :: Product

text \<open>
  \<^verbatim>\<open>start_negotiation\<close>. The session is stored and saved before the product is
  looked up. \<^verbatim>\<open>raise HTTPException(status_code=404, ...)\<close> stands inside the
  \<^verbatim>\<open>try\<close>, so the \<^verbatim>\<open>except Exception\<close> clause catches it and raises the 500
  response whose detail is the text of the caught exception.
\<close>

definition start_negotiation ::
  "env \<Rightarrow> NegotiationParams \<Rightarrow> world \<Rightarrow> (py_exception + start_response) \<times> world" where
  "start_negotiation e params w =
     (let (u, w1) = new_uuid e w;
          (t, w2) = datetime_now e w1;
          session = \<lparr>session_ident = u, session_product_id = product_id params,
                      user_params = params, status = ''active'', created_at = t,
                      messages = [], final_price = None, session_outcome = None,
                      ended_at = None\<rparr>;
          w3 = put_session u session w2;
          w4 = db_save session w3
      in case get_product (db w4) (product_id params) of
           None \<Rightarrow>
             (Inl (HTTPException 500 (StrOf (HTTPException 404 (Detail ''Product not found'')))), w4)
         | Some product \<Rightarrow>
             (Inr \<lparr>response_session_id = u,
                   response_message = ''Negotiation session started successfully'',
                   response_product = product\<rparr>, w4))"

definition ended_payload :: "pydict \<Rightarrow> json" where
  "ended_payload result = JObj [(''type'', JStr ''session_ended''), (''result'', JObj result)]"

text \<open>
  \<^verbatim>\<open>end_negotiation\<close>. The body of the \<^verbatim>\<open>if\<close> runs for a session of the store
  only; the \<^verbatim>\<open>return\<close> after it runs in both cases. An exception of a send is caught
  by the \<^verbatim>\<open>except\<close> clause, which raises the 500 response; the session then stays
  in the store.
\<close>

definition end_negotiation ::
  "env \<Rightarrow> string \<Rightarrow> pydict \<Rightarrow> world \<Rightarrow> (py_exception + string) \<times> world" where
  "end_negotiation e sid result w =
     (case active_sessions w sid of
        Some session \<Rightarrow>
          (let (t, w1) = datetime_now e w;
               session1 = session\<lparr>status := ''completed'',
                            final_price := map_of result ''final_price'',
                            session_outcome := Some (case map_of result ''outcome'' of
                                                       None \<Rightarrow> JStr ''unknown''
                                                     | Some v \<Rightarrow> v),
                            ended_at := Some t\<rparr>;
               w2 = put_session sid session1 w1;
               w3 = db_save session1 w2;
               (r1, w4) = to_user sid (ended_payload result) w3
           in case r1 of
                Inl exc \<Rightarrow> (Inl (HTTPException 500 (StrOf exc)), w4)
              | Inr d1 \<Rightarrow>
                  (let (r2, w5) = to_seller sid (ended_payload result) w4
                   in case r2 of
                        Inl exc \<Rightarrow> (Inl (HTTPException 500 (StrOf exc)), w5)
                      | Inr d2 \<Rightarrow>
                          (Inr ''Negotiation ended successfully'',
                           w5\<lparr>active_sessions := (active_sessions w5)(sid := None)\<rparr>)))
      | None \<Rightarrow> (Inr ''Negotiation ended successfully'', w))"

section \<open>Runs of the process\<close>

text \<open>
  The process starts with an empty store and an empty connection manager. A run is a
  list of calls: the two HTTP operations, the two relay handlers, and an endpoint
  attaching to a side of a session.
\<close>

definition init_world :: "JSONDatabase \<Rightarrow> GeminiAIService \<Rightarrow> world" where
  "init_world d svc =
     \<lparr>active_sessions = Map.empty, db = d,
      manager = \<lparr>user_connections = Map.empty, seller_connections = Map.empty, sent = []\<rparr>,
      ai_service = svc, now_calls = 0, uuid_calls = 0, generate_calls = 0, trace = []\<rparr>"

datatype call =
    Start NegotiationParams
  | End string pydict
  | UserMessage string "(string \<times> string) list"
  | SellerMessage string "(string \<times> string) list"
  | ConnectUser WebSocket string
  | ConnectSeller WebSocket string

fun step :: "env \<Rightarrow> call \<Rightarrow> world \<Rightarrow> world" where
  "step e (Start params) w = snd (start_negotiation e params w)"
| "step e (End sid result) w = snd (end_negotiation e sid result w)"
| "step e (UserMessage sid message_data) w = snd (handle_user_message e sid message_data w)"
| "step e (SellerMessage sid message_data) w = snd (handle_seller_message e sid message_data w)"
| "step e (ConnectUser websocket sid) w = w\<lparr>manager := connect_user websocket sid (manager w)\<rparr>"
| "step e (ConnectSeller websocket sid) w = w\<lparr>manager := connect_seller websocket sid (manager w)\<rparr>"

fun run :: "env \<Rightarrow> call list \<Rightarrow> world \<Rightarrow> world" where
  "run e [] w = w"
| "run e (c # cs) w = run e cs (step e c w)"

section \<open>Observations\<close>

text \<open>
  The history of a session of the store, the calls of Send made between two states,
  and the serialized message a payload carries under its key \<^verbatim>\<open>message\<close> (the
  error payload has a text there, and the end of a session has none).
\<close>

definition history :: "world \<Rightarrow> string \<Rightarrow> ChatMessage list" where
  "history w sid = (case active_sessions w sid of None \<Rightarrow> [] | Some session \<Rightarrow> messages session)"

definition sent_during :: "world \<Rightarrow> world \<Rightarrow> send list" where
  "sent_during w w' = drop (length (sent (manager w))) (sent (manager w'))"

fun send_role :: "send \<Rightarrow> role" where
  "send_role (Send r sid payload d) = r"

fun send_session :: "send \<Rightarrow> string" where
  "send_session (Send r sid payload d) = sid"

fun send_payload :: "send \<Rightarrow> json" where
  "send_payload (Send r sid payload d) = payload"

fun send_delivery :: "send \<Rightarrow> delivery" where
  "send_delivery (Send r sid payload d) = d"

definition payload_type :: "json \<Rightarrow> json option" where
  "payload_type payload = (case payload of JObj entries \<Rightarrow> map_of entries ''type'' | _ \<Rightarrow> None)"

definition carried_message :: "json \<Rightarrow> pydict option" where
  "carried_message payload =
     (case payload of
        JObj entries \<Rightarrow> (case map_of entries ''message'' of Some (JObj obj) \<Rightarrow> Some obj | _ \<Rightarrow> None)
      | _ \<Rightarrow> None)"

text \<open>
  A trace in which nothing is sent before it is appended: every call of Send whose
  payload carries a message comes after the effect that appended a message with this
  serialization to the history of the same session. \<open>seen\<close> holds what has been
  appended so far.
\<close>

fun appended_first :: "(string \<times> pydict) list \<Rightarrow> effect list \<Rightarrow> bool" where
  "appended_first seen [] = True"
| "appended_first seen (Appended sid m # effects) =
     appended_first ((sid, serialize_message m) # seen) effects"
| "appended_first seen (Sending r sid payload res # effects) =
     ((case carried_message payload of
         None \<Rightarrow> True
       | Some obj \<Rightarrow> (sid, obj) \<in> set seen)
      \<and> appended_first seen effects)"

text \<open>
  The inbound message a relay call brings to the session \<open>sid\<close>: its origin and
  its text. \<open>inbound_history\<close> is the same view of a history, without the agent's
  replies.
\<close>

fun inbound :: "string \<Rightarrow> call \<Rightarrow> (string \<times> string) list" where
  "inbound sid (UserMessage sid' message_data) =
     (if sid' = sid then [(''user'', get_content message_data)] else [])"
| "inbound sid (SellerMessage sid' message_data) =
     (if sid' = sid then [(''seller'', get_content message_data)] else [])"
| "inbound sid c = []"

fun relay_call :: "call \<Rightarrow> bool" where
  "relay_call (UserMessage sid message_data) = True"
| "relay_call (SellerMessage sid message_data) = True"
| "relay_call c = False"

definition inbound_history :: "ChatMessage list \<Rightarrow> (string \<times> string) list" where
  "inbound_history ms = map (\<lambda>m. (sender m, content m)) (filter (\<lambda>m. sender m \<noteq> ''ai'') ms)"

text \<open>
  The clock of the environment never runs backwards; and the invariant of the store
  that follows from it: every history is in the order of its timestamps, and no
  timestamp is later than a reading the clock has still to give.
\<close>

definition monotone_clock :: "env \<Rightarrow> bool" where
  "monotone_clock e = (\<forall>i j. i \<le> j \<longrightarrow> clock e i \<le> clock e j)"

definition timestamps_ok :: "env \<Rightarrow> world \<Rightarrow> bool" where
  "timestamps_ok e w =
     (\<forall>sid session. active_sessions w sid = Some session \<longrightarrow>
        sorted (map timestamp (messages session))
        \<and> (\<forall>m \<in> set (messages session). \<forall>j \<ge> now_calls w. timestamp m \<le> clock e j))"

section \<open>A scenario\<close>

text \<open>
  The scenario of the specification: a session with target price 5000, maximum budget
  6000 and the diplomatic approach, with an endpoint attached on each side. The first
  call of the API answers, every later one fails.
\<close>

definition demo_product :: Product where
  "demo_product = \<lparr>title = ''Phone'', price = 52000, condition = ''good'',
                    seller_name = ''Ravi'', location = ''Pune''\<rparr>"

definition demo_db :: JSONDatabase where
  "demo_db = \<lparr>products = [''p1'' \<mapsto> demo_product], sessions = Map.empty\<rparr>"

definition demo_service :: GeminiAIService where
  "demo_service = \<lparr>api_key = ''key'', model = Some (GenerativeModel ''gemini-1.5-flash'')\<rparr>"

definition demo_env :: env where
  "demo_env =
     \<lparr>clock = (\<lambda>n. 1000 + n),
      uuid4 = (\<lambda>n. ''uuid'' @ digits n),
      gemini = (\<lambda>n prompt. if n = 0 then Inr ''Would 5,000 work for you?''
                            else Inl (GeminiError ''deadline exceeded'')),
      times_1_15 = float_times_1_15\<rparr>"

definition demo_params :: NegotiationParams where
  "demo_params = \<lparr>product_id = ''p1'', target_price = 5000, max_budget = 6000,
                   approach = Enum DIPLOMATIC\<rparr>"

definition demo_world :: world where
  "demo_world = run demo_env [Start demo_params, ConnectUser 1 ''uuid0'', ConnectSeller 2 ''uuid0'']
                  (init_world demo_db demo_service)"

text \<open>
  The session of the scenario as \<^verbatim>\<open>start_negotiation\<close> creates it; the state with the
  session and no endpoint attached; an environment whose API always fails; and an
  environment whose clock is set back between any two readings.
\<close>

definition demo_session0 :: NegotiationSession where
  "demo_session0 =
     \<lparr>session_ident = ''uuid0'', session_product_id = ''p1'', user_params = demo_params,
      status = ''active'', created_at = 1000, messages = [], final_price = None,
      session_outcome = None, ended_at = None\<rparr>"

definition quiet_world :: world where
  "quiet_world = run demo_env [Start demo_params] (init_world demo_db demo_service)"

definition failing_env :: env where
  "failing_env = demo_env\<lparr>gemini := (\<lambda>n prompt. Inl (GeminiError ''deadline exceeded''))\<rparr>"

definition backwards_env :: env where
  "backwards_env = demo_env\<lparr>clock := (\<lambda>n. 10 - n)\<rparr>"

section \<open>The text generation service: properties\<close>

lemma convert_approach_Enum: "convert_approach (Enum a) = a"
  by (simp add: convert_approach_def)

lemma convert_approach_unknown:
  "lower s \<notin> {''assertive'', ''diplomatic'', ''considerate''} \<Longrightarrow>
     convert_approach (Str s) = DIPLOMATIC"
  by (simp add: convert_approach_def NegotiationApproach_of_def)

lemma get_fallback_response_cong:
  "convert_approach a = convert_approach b \<Longrightarrow>
   get_fallback_response scale a target chat_history product
     = get_fallback_response scale b target chat_history product"
  unfolding get_fallback_response_def by (erule subst) (rule refl)

lemma generate_response_cong:
  "convert_approach a = convert_approach b \<Longrightarrow>
   generate_response api scale self a target budget chat_history product
     = generate_response api scale self b target budget chat_history product"
  unfolding generate_response_def by (erule subst) (rule refl)

lemma build_negotiation_context_Some:
  "\<exists>prompt. build_negotiation_context a target budget h (Some p) = Inr prompt"
  by (simp add: build_negotiation_context_def Let_def)

lemma format_comma_5000: "format_comma 5000 = ''5,000''"
  by (simp add: format_comma_def digit_char_def)

lemma diplomatic_opening:
  "get_fallback_response scale (Enum DIPLOMATIC) 5000 [] (Some demo_product)
     = Inr (''Good day Ravi! I'm very interested in your product. Would you consider an offer of ''
            @ rupee @ ''5,000? I believe it's a fair price given the current market.'')"
  by (simp add: get_fallback_response_def convert_approach_def seller_messages_of_def
        naming_seller_def format_comma_5000 demo_product_def)

lemma generate_response_replies:
  "model self \<noteq> None \<Longrightarrow> (\<And>prompt. api prompt = Inr reply) \<Longrightarrow>
     generate_response api scale self a target budget h (Some p) = Inr reply"
  using build_negotiation_context_Some [of "convert_approach a" target budget h p]
  by (auto simp add: generate_response_def)

lemma generate_response_raises:
  "model self \<noteq> None \<Longrightarrow> (\<And>prompt. isl (api prompt)) \<Longrightarrow>
     generate_response api scale self a target budget h product = Inl TypeError"
proof -
  assume configured: "model self \<noteq> None" and raises: "\<And>prompt. isl (api prompt)"
  show ?thesis
  proof (cases "build_negotiation_context (convert_approach a) target budget h product")
    case (Inl exc)
    with configured show ?thesis
      by (auto simp add: generate_response_def call_get_fallback_response_def Let_def)
  next
    case (Inr prompt)
    from raises [of prompt] obtain exc where "api prompt = Inl exc"
      by (auto simp add: isl_def)
    with configured Inr show ?thesis
      by (auto simp add: generate_response_def call_get_fallback_response_def Let_def)
  qed
qed

text \<open>
  C8. An approach that is a string and, in lower case, none of \<open>assertive\<close>,
  \<open>diplomatic\<close>, \<open>considerate\<close> (the enum's constructor rejects it) gives the same
  result as the approach \<open>DIPLOMATIC\<close>: in \<^verbatim>\<open>generate_response\<close>, whatever the
  client and the API do, and in \<^verbatim>\<open>_get_fallback_response\<close>.
\<close>

theorem unknown_approach_is_diplomatic:
  assumes "lower s \<notin> {''assertive'', ''diplomatic'', ''considerate''}"
  shows "generate_response api scale self (Str s) target budget chat_history product
           = generate_response api scale self (Enum DIPLOMATIC) target budget chat_history product
       \<and> get_fallback_response scale (Str s) target chat_history product
           = get_fallback_response scale (Enum DIPLOMATIC) target chat_history product"
proof -
  have c: "convert_approach (Str s) = convert_approach (Enum DIPLOMATIC)"
    using assms by (simp add: convert_approach_unknown convert_approach_Enum)
  show ?thesis
    using generate_response_cong [OF c] get_fallback_response_cong [OF c] by blast
qed

theorem unknown_approach_is_diplomatic_witness:
  "lower ''Aggressive'' \<notin> {''assertive'', ''diplomatic'', ''considerate''}
   \<and> get_fallback_response (\<lambda>n. Inr n) (Str ''Aggressive'') 5000 [] (Some demo_product)
      = Inr (''Good day Ravi! I'm very interested in your product. Would you consider an offer of ''
             @ rupee @ ''5,000? I believe it's a fair price given the current market.'')"
proof -
  have h: "lower ''Aggressive'' \<notin> {''assertive'', ''diplomatic'', ''considerate''}"
    by (simp add: lower_char_def kelvin_sign_def dotted_capital_i_def)
  show ?thesis
    using h diplomatic_opening [of "\<lambda>n. Inr n"]
      unknown_approach_is_diplomatic [OF h, of "\<lambda>prompt. Inl ValueError" "\<lambda>n. Inr n"
        demo_service 5000 6000 "[]" "Some demo_product"]
    by simp
qed

text \<open>
  C10. With a configured client (\<^verbatim>\<open>self.model\<close> is not \<^verbatim>\<open>None\<close>), an exception of
  the API call, or of the prompt construction before it, ends in the \<^verbatim>\<open>except\<close>
  clause, whose call of \<^verbatim>\<open>_get_fallback_response\<close> has no \<^verbatim>\<open>product\<close> argument:
  \<^verbatim>\<open>generate_response\<close> raises \<^verbatim>\<open>TypeError\<close>. What a configured service returns
  is the API's reply to the prompt. The fallback text is the result exactly when the
  client is \<^verbatim>\<open>None\<close>.
\<close>

theorem api_failure_propagates:
  "(model self \<noteq> None
      \<and> build_negotiation_context (convert_approach a) target budget h product = Inr prompt
      \<and> api prompt = Inl exc
    \<longrightarrow> generate_response api scale self a target budget h product = Inl TypeError)
   \<and> (model self \<noteq> None
      \<and> build_negotiation_context (convert_approach a) target budget h product = Inl exc
    \<longrightarrow> generate_response api scale self a target budget h product = Inl TypeError)
   \<and> (model self \<noteq> None
      \<and> generate_response api scale self a target budget h product = Inr reply
    \<longrightarrow> (\<exists>prompt'. build_negotiation_context (convert_approach a) target budget h product
                       = Inr prompt'
                 \<and> api prompt' = Inr reply))
   \<and> (model self = None
    \<longrightarrow> generate_response api scale self a target budget h product
          = get_fallback_response scale (Enum (convert_approach a)) target h product)"
  by (auto simp add: generate_response_def call_get_fallback_response_def Let_def
        split: sum.splits)

theorem api_failure_propagates_witness:
  "generate_response (\<lambda>prompt. Inl (GeminiError ''503 unavailable'')) (\<lambda>n. Inr n) demo_service
      (Enum DIPLOMATIC) 5000 6000 [] (Some demo_product)
     = Inl TypeError
   \<and> build_negotiation_context DIPLOMATIC 5000 6000 [] None = Inl AttributeError
   \<and> generate_response (\<lambda>prompt. Inr ''Would 5,000 work for you?'') (\<lambda>n. Inr n) demo_service
      (Enum DIPLOMATIC) 5000 6000 [] None
     = Inl TypeError
   \<and> generate_response (\<lambda>prompt. Inr ''Would 5,000 work for you?'') (\<lambda>n. Inr n) demo_service
      (Enum DIPLOMATIC) 5000 6000 [] (Some demo_product)
     = Inr ''Would 5,000 work for you?''
   \<and> (\<exists>prompt'. build_negotiation_context DIPLOMATIC 5000 6000 [] (Some demo_product) = Inr prompt')
   \<and> generate_response (\<lambda>prompt. Inl (GeminiError ''503 unavailable'')) (\<lambda>n. Inr n)
      \<lparr>api_key = ''key'', model = None\<rparr>
      (Enum DIPLOMATIC) 5000 6000 [] (Some demo_product)
     = Inr (''Good day Ravi! I'm very interested in your product. Would you consider an offer of ''
            @ rupee @ ''5,000? I believe it's a fair price given the current market.'')"
proof -
  let ?down = "\<lambda>prompt::string. (Inl (GeminiError ''503 unavailable'') :: py_exception + string)"
  let ?up = "\<lambda>prompt::string. (Inr ''Would 5,000 work for you?'' :: py_exception + string)"
  let ?scale = "\<lambda>n::int. (Inr n :: py_exception + int)"
  obtain ctx where c:
    "build_negotiation_context (convert_approach (Enum DIPLOMATIC)) 5000 6000 [] (Some demo_product)
       = Inr ctx"
    using build_negotiation_context_Some by blast
  have n: "build_negotiation_context (convert_approach (Enum DIPLOMATIC)) 5000 6000 [] None
       = Inl AttributeError"
    by (simp add: build_negotiation_context_def Let_def)
  have configured: "model demo_service \<noteq> None"
    by (simp add: demo_service_def)
  have replies: "generate_response ?up ?scale demo_service (Enum DIPLOMATIC) 5000 6000 []
      (Some demo_product) = Inr ''Would 5,000 work for you?''"
    using configured by (rule generate_response_replies) simp
  have 1: "generate_response ?down ?scale demo_service (Enum DIPLOMATIC) 5000 6000 []
      (Some demo_product) = Inl TypeError"
    using configured c
      api_failure_propagates [where self = demo_service and a = "Enum DIPLOMATIC"
        and target = 5000 and budget = 6000 and h = "[]" and product = "Some demo_product"
        and prompt = ctx and api = ?down and exc = "GeminiError ''503 unavailable''"
        and scale = ?scale]
    by simp
  have 2: "generate_response ?up ?scale demo_service (Enum DIPLOMATIC) 5000 6000 [] None
      = Inl TypeError"
    using configured n
      api_failure_propagates [where self = demo_service and a = "Enum DIPLOMATIC"
        and target = 5000 and budget = 6000 and h = "[]" and product = None
        and api = ?up and exc = AttributeError and scale = ?scale]
    by simp
  have 3: "\<exists>prompt'. build_negotiation_context DIPLOMATIC 5000 6000 [] (Some demo_product)
      = Inr prompt'"
    using configured replies
      api_failure_propagates [where self = demo_service and a = "Enum DIPLOMATIC"
        and target = 5000 and budget = 6000 and h = "[]" and product = "Some demo_product"
        and api = ?up and reply = "''Would 5,000 work for you?''" and scale = ?scale]
    by (auto simp add: convert_approach_Enum)
  have 4: "generate_response ?down ?scale \<lparr>api_key = ''key'', model = None\<rparr>
      (Enum DIPLOMATIC) 5000 6000 [] (Some demo_product)
     = Inr (''Good day Ravi! I'm very interested in your product. Would you consider an offer of ''
            @ rupee @ ''5,000? I believe it's a fair price given the current market.'')"
    using diplomatic_opening [of ?scale]
      api_failure_propagates [where self = "\<lparr>api_key = ''key'', model = None\<rparr>"
        and a = "Enum DIPLOMATIC" and target = 5000 and budget = 6000 and h = "[]"
        and product = "Some demo_product" and api = ?down and scale = ?scale]
    by (simp add: convert_approach_Enum)
  from 1 2 3 4 n replies show ?thesis
    by (simp add: convert_approach_Enum)
qed

section \<open>The handlers in closed form\<close>

text \<open>
  On an active session each handler is one update of the state; the lifecycle
  operations likewise. The properties below are read off these equations.
\<close>

lemma send_to_user_result:
  "send_to_user sid payload m =
     (Inr (attempt (user_connections m sid)),
      m\<lparr>sent := sent m @ [Send UserSide sid payload (attempt (user_connections m sid))]\<rparr>)"
  by (simp add: send_to_user_def)

lemma send_to_seller_result:
  "send_to_seller sid payload m =
     (Inr (attempt (seller_connections m sid)),
      m\<lparr>sent := sent m @ [Send SellerSide sid payload (attempt (seller_connections m sid))]\<rparr>)"
  by (simp add: send_to_seller_def)

lemma handle_user_message_active:
  fixes message
  defines "message \<equiv> \<lambda>e sid message_data w.
             \<lparr>message_id = uuid4 e (uuid_calls w), session_id = sid, sender = ''user'',
              content = get_content message_data, timestamp = clock e (now_calls w),
              sender_type = ''override''\<rparr>"
  assumes "active_sessions w sid = Some session"
  shows "handle_user_message e sid message_data w =
     (Returned,
      w\<lparr>active_sessions := (active_sessions w)(sid \<mapsto>
            session\<lparr>messages := messages session @ [message e sid message_data w]\<rparr>),
        db := save_session (session\<lparr>messages := messages session @ [message e sid message_data w]\<rparr>) (db w),
        manager := (manager w)\<lparr>sent := sent (manager w) @
           [Send SellerSide sid (message_payload ''message'' (message e sid message_data w) ''buyer'')
              (attempt (seller_connections (manager w) sid))]\<rparr>,
        now_calls := Suc (now_calls w),
        uuid_calls := Suc (uuid_calls w),
        trace := trace w @
           [Appended sid (message e sid message_data w),
            Sending SellerSide sid (message_payload ''message'' (message e sid message_data w) ''buyer'')
              (Inr (attempt (seller_connections (manager w) sid)))]\<rparr>)"
  using assms
  by (simp add: handle_user_message_def new_uuid_def datetime_now_def append_message_def
        to_seller_def send_to_seller_def db_save_def Let_def)

lemma handle_seller_message_active:
  fixes seller_message ai_message
  defines "seller_message \<equiv> \<lambda>e sid message_data w.
             \<lparr>message_id = uuid4 e (uuid_calls w), session_id = sid, sender = ''seller'',
              content = get_content message_data, timestamp = clock e (now_calls w),
              sender_type = ''human''\<rparr>"
      and "ai_message \<equiv> \<lambda>e sid reply w.
             \<lparr>message_id = uuid4 e (Suc (uuid_calls w)), session_id = sid, sender = ''ai'',
              content = reply, timestamp = clock e (Suc (now_calls w)),
              sender_type = ''ai''\<rparr>"
  assumes "active_sessions w sid = Some session"
  shows "handle_seller_message e sid message_data w =
     (Returned,
      case generation e (session\<lparr>messages := messages session @ [seller_message e sid message_data w]\<rparr>) w of
        Inr reply \<Rightarrow>
          w\<lparr>active_sessions := (active_sessions w)(sid \<mapsto>
                session\<lparr>messages := messages session
                   @ [seller_message e sid message_data w, ai_message e sid reply w]\<rparr>),
            db := save_session (session\<lparr>messages := messages session
                   @ [seller_message e sid message_data w, ai_message e sid reply w]\<rparr>) (db w),
            manager := (manager w)\<lparr>sent := sent (manager w) @
               [Send UserSide sid
                  (message_payload ''message'' (seller_message e sid message_data w) ''seller'')
                  (attempt (user_connections (manager w) sid)),
                Send SellerSide sid (message_payload ''message'' (ai_message e sid reply w) ''buyer'')
                  (attempt (seller_connections (manager w) sid)),
                Send UserSide sid (message_payload ''ai_response'' (ai_message e sid reply w) ''ai'')
                  (attempt (user_connections (manager w) sid))]\<rparr>,
            now_calls := Suc (Suc (now_calls w)),
            uuid_calls := Suc (Suc (uuid_calls w)),
            generate_calls := Suc (generate_calls w),
            trace := trace w @
               [Appended sid (seller_message e sid message_data w),
                Sending UserSide sid
                  (message_payload ''message'' (seller_message e sid message_data w) ''seller'')
                  (Inr (attempt (user_connections (manager w) sid))),
                Appended sid (ai_message e sid reply w),
                Sending SellerSide sid (message_payload ''message'' (ai_message e sid reply w) ''buyer'')
                  (Inr (attempt (seller_connections (manager w) sid))),
                Sending UserSide sid (message_payload ''ai_response'' (ai_message e sid reply w) ''ai'')
                  (Inr (attempt (user_connections (manager w) sid)))]\<rparr>
      | Inl exc \<Rightarrow>
          w\<lparr>active_sessions := (active_sessions w)(sid \<mapsto>
                session\<lparr>messages := messages session @ [seller_message e sid message_data w]\<rparr>),
            db := save_session (session\<lparr>messages := messages session
                   @ [seller_message e sid message_data w]\<rparr>) (db w),
            manager := (manager w)\<lparr>sent := sent (manager w) @
               [Send UserSide sid
                  (message_payload ''message'' (seller_message e sid message_data w) ''seller'')
                  (attempt (user_connections (manager w) sid)),
                Send UserSide sid error_payload (attempt (user_connections (manager w) sid))]\<rparr>,
            now_calls := Suc (now_calls w),
            uuid_calls := Suc (uuid_calls w),
            generate_calls := Suc (generate_calls w),
            trace := trace w @
               [Appended sid (seller_message e sid message_data w),
                Sending UserSide sid
                  (message_payload ''message'' (seller_message e sid message_data w) ''seller'')
                  (Inr (attempt (user_connections (manager w) sid))),
                Sending UserSide sid error_payload
                  (Inr (attempt (user_connections (manager w) sid)))]\<rparr>)"
  using assms
  by (simp add: handle_seller_message_def report_failure_def new_uuid_def datetime_now_def
        generation_def append_message_def to_seller_def to_user_def send_to_seller_def
        send_to_user_def db_save_def get_product_def Let_def
        split: sum.split)

lemma start_negotiation_state:
  "snd (start_negotiation e params w) =
     w\<lparr>active_sessions := (active_sessions w)(uuid4 e (uuid_calls w) \<mapsto>
          \<lparr>session_ident = uuid4 e (uuid_calls w), session_product_id = product_id params,
            user_params = params, status = ''active'', created_at = clock e (now_calls w),
            messages = [], final_price = None, session_outcome = None, ended_at = None\<rparr>),
       db := save_session
          \<lparr>session_ident = uuid4 e (uuid_calls w), session_product_id = product_id params,
            user_params = params, status = ''active'', created_at = clock e (now_calls w),
            messages = [], final_price = None, session_outcome = None, ended_at = None\<rparr> (db w),
       now_calls := Suc (now_calls w),
       uuid_calls := Suc (uuid_calls w)\<rparr>"
  by (simp add: start_negotiation_def new_uuid_def datetime_now_def put_session_def db_save_def
        Let_def split: option.split)

lemma end_negotiation_absent:
  "active_sessions w sid = None \<Longrightarrow>
     end_negotiation e sid result w = (Inr ''Negotiation ended successfully'', w)"
  by (simp add: end_negotiation_def)

lemma end_negotiation_active:
  "active_sessions w sid = Some session \<Longrightarrow>
     end_negotiation e sid result w =
       (Inr ''Negotiation ended successfully'',
        w\<lparr>active_sessions := (active_sessions w)(sid := None),
          db := save_session (session\<lparr>status := ''completed'',
                            final_price := map_of result ''final_price'',
                            session_outcome := Some (case map_of result ''outcome'' of
                                                       None \<Rightarrow> JStr ''unknown''
                                                     | Some v \<Rightarrow> v),
                            ended_at := Some (clock e (now_calls w))\<rparr>) (db w),
          manager := (manager w)\<lparr>sent := sent (manager w) @
             [Send UserSide sid (ended_payload result) (attempt (user_connections (manager w) sid)),
              Send SellerSide sid (ended_payload result)
                (attempt (seller_connections (manager w) sid))]\<rparr>,
          now_calls := Suc (now_calls w),
          trace := trace w @
             [Sending UserSide sid (ended_payload result)
                (Inr (attempt (user_connections (manager w) sid))),
              Sending SellerSide sid (ended_payload result)
                (Inr (attempt (seller_connections (manager w) sid)))]\<rparr>)"
  by (simp add: end_negotiation_def datetime_now_def put_session_def db_save_def to_user_def
        to_seller_def send_to_user_def send_to_seller_def Let_def)

lemma end_negotiation_evicts:
  "active_sessions (snd (end_negotiation e sid result w)) sid = None"
  by (cases "active_sessions w sid") (simp_all add: end_negotiation_absent end_negotiation_active)

lemma start_negotiation_result:
  "fst (start_negotiation e params w) =
     (case get_product (db w) (product_id params) of
        None \<Rightarrow> Inl (HTTPException 500 (StrOf (HTTPException 404 (Detail ''Product not found''))))
      | Some product \<Rightarrow>
          Inr \<lparr>response_session_id = uuid4 e (uuid_calls w),
               response_message = ''Negotiation session started successfully'',
               response_product = product\<rparr>)"
  by (simp add: start_negotiation_def new_uuid_def datetime_now_def put_session_def db_save_def
        save_session_def get_product_def Let_def split: option.split)

lemma payload_type_message [simp]:
  "payload_type (message_payload kind m label) = Some (JStr kind)"
  by (simp add: payload_type_def message_payload_def)

lemma payload_type_error [simp]: "payload_type error_payload = Some (JStr ''error'')"
  by (simp add: payload_type_def error_payload_def)

lemma carried_message_payload [simp]:
  "carried_message (message_payload kind m label) = Some (serialize_message m)"
  by (simp add: carried_message_def message_payload_def)

lemma carried_error [simp]: "carried_message error_payload = None"
  by (simp add: carried_message_def error_payload_def)

lemma carried_ended [simp]: "carried_message (ended_payload result) = None"
  by (simp add: carried_message_def ended_payload_def)

section \<open>The scenario, evaluated\<close>

lemma quiet_world_eq:
  "quiet_world =
     \<lparr>active_sessions = [''uuid0'' \<mapsto> demo_session0],
      db = \<lparr>products = [''p1'' \<mapsto> demo_product], sessions = [''uuid0'' \<mapsto> demo_session0]\<rparr>,
      manager = \<lparr>user_connections = Map.empty, seller_connections = Map.empty, sent = []\<rparr>,
      ai_service = demo_service, now_calls = Suc 0, uuid_calls = Suc 0, generate_calls = 0,
      trace = []\<rparr>"
  by (simp add: quiet_world_def init_world_def demo_env_def demo_db_def demo_params_def
        demo_session0_def start_negotiation_state save_session_def digit_char_def)

lemma demo_world_eq:
  "demo_world =
     \<lparr>active_sessions = [''uuid0'' \<mapsto> demo_session0],
      db = \<lparr>products = [''p1'' \<mapsto> demo_product], sessions = [''uuid0'' \<mapsto> demo_session0]\<rparr>,
      manager = \<lparr>user_connections = [''uuid0'' \<mapsto> 1], seller_connections = [''uuid0'' \<mapsto> 2], sent = []\<rparr>,
      ai_service = demo_service, now_calls = Suc 0, uuid_calls = Suc 0, generate_calls = 0,
      trace = []\<rparr>"
  by (simp add: demo_world_def init_world_def demo_env_def demo_db_def demo_params_def
        demo_session0_def start_negotiation_state save_session_def connect_seller_def connect_user_def digit_char_def)

lemma demo_generation:
  "generation demo_env (demo_session0\<lparr>messages := ms\<rparr>) demo_world = Inr ''Would 5,000 work for you?''"
  by (simp add: generation_def demo_world_eq get_product_def demo_session0_def
        generate_response_replies demo_service_def demo_env_def)

lemma failing_generation:
  "generation failing_env (demo_session0\<lparr>messages := ms\<rparr>) demo_world = Inl TypeError"
  by (simp add: generation_def demo_world_eq get_product_def demo_session0_def
        generate_response_raises demo_service_def failing_env_def)
lemma demo_session0_active: "active_sessions demo_world ''uuid0'' = Some demo_session0"
  by (simp add: demo_world_eq)

lemma quiet_session0_active: "active_sessions quiet_world ''uuid0'' = Some demo_session0"
  by (simp add: quiet_world_eq)

section \<open>The relay handlers: properties\<close>

text \<open>
  C9. For a session identifier that is not in \<^verbatim>\<open>active_sessions\<close>, both relay
  handlers return at once: the state after the call is the state before it (no
  history has a new message, the connection manager has sent nothing), and nothing is
  raised.
\<close>

theorem unknown_session_is_ignored:
  "active_sessions w sid = None \<Longrightarrow>
     handle_user_message e sid message_data w = (Returned, w)
   \<and> handle_seller_message e sid message_data w = (Returned, w)"
  by (simp add: handle_user_message_def handle_seller_message_def)

theorem unknown_session_is_ignored_witness:
  "active_sessions demo_world ''uuid7'' = None
   \<and> handle_user_message demo_env ''uuid7'' [(''content'', ''hello'')] demo_world
       = (Returned, demo_world)
   \<and> handle_seller_message demo_env ''uuid7'' [(''content'', ''hello'')] demo_world
       = (Returned, demo_world)"
proof -
  have h: "active_sessions demo_world ''uuid7'' = None"
    by (simp add: demo_world_eq)
  show ?thesis
    using h unknown_session_is_ignored [OF h] by simp
qed

text \<open>
  C5. A user-side (override) message on an active session appends exactly one message
  to the history of that session, with sender \<open>user\<close> (the origin the specification
  calls agent-side-user) and sender type \<open>override\<close>; the other sessions and the
  other fields of the session stay as they are. Exactly one payload is handed to the
  connection manager in the call, for the seller side: the dict with the type
  \<open>message\<close>, the six fields of this message, and the sender label \<open>buyer\<close>.
  \<^verbatim>\<open>generate_response\<close> is not called.
\<close>

theorem user_override_is_relayed:
  assumes "active_sessions w sid = Some session"
  shows "\<exists>m w'. handle_user_message e sid message_data w = (Returned, w')
     \<and> m = \<lparr>message_id = uuid4 e (uuid_calls w), session_id = sid, sender = ''user'',
               content = get_content message_data, timestamp = clock e (now_calls w),
               sender_type = ''override''\<rparr>
     \<and> active_sessions w' = (active_sessions w)(sid \<mapsto> session\<lparr>messages := messages session @ [m]\<rparr>)
     \<and> sent_during w w'
         = [Send SellerSide sid
              (JObj [(''type'', JStr ''message''),
                     (''message'', JObj [(''id'', JStr (message_id m)), (''session_id'', JStr (session_id m)),
                                       (''sender'', JStr (sender m)), (''content'', JStr (content m)),
                                       (''timestamp'', JIso (timestamp m)),
                                       (''sender_type'', JStr (sender_type m))]),
                     (''sender'', JStr ''buyer'')])
              (attempt (seller_connections (manager w) sid))]
     \<and> generate_calls w' = generate_calls w"
proof -
  let ?m = "\<lparr>message_id = uuid4 e (uuid_calls w), session_id = sid, sender = ''user'',
               content = get_content message_data, timestamp = clock e (now_calls w),
               sender_type = ''override''\<rparr>"
  show ?thesis
    by (intro exI [of _ ?m])
       (simp add: handle_user_message_active [OF assms] sent_during_def message_payload_def
          serialize_message_def)
qed

theorem user_override_is_relayed_witness:
  "active_sessions demo_world ''uuid0'' = Some demo_session0
   \<and> (\<exists>w'. handle_user_message demo_env ''uuid0'' [(''content'', ''I can pay 5200'')] demo_world
              = (Returned, w')
        \<and> history w' ''uuid0''
            = [\<lparr>message_id = ''uuid1'', session_id = ''uuid0'', sender = ''user'',
              content = ''I can pay 5200'', timestamp = 1001, sender_type = ''override''\<rparr>]
        \<and> sent_during demo_world w'
            = [Send SellerSide ''uuid0''
                 (JObj [(''type'', JStr ''message''),
                        (''message'', JObj [(''id'', JStr ''uuid1''), (''session_id'', JStr ''uuid0''),
                                           (''sender'', JStr ''user''), (''content'', JStr ''I can pay 5200''),
                                           (''timestamp'', JIso 1001),
                                           (''sender_type'', JStr ''override'')]),
                        (''sender'', JStr ''buyer'')])
                 (Delivered 2)]
        \<and> generate_calls w' = 0)"
proof -
  from user_override_is_relayed [OF demo_session0_active, of demo_env "[(''content'', ''I can pay 5200'')]"]
  obtain m w' where h:
    "handle_user_message demo_env ''uuid0'' [(''content'', ''I can pay 5200'')] demo_world = (Returned, w')"
    "m = \<lparr>message_id = uuid4 demo_env (uuid_calls demo_world), session_id = ''uuid0'', sender = ''user'',
               content = get_content [(''content'', ''I can pay 5200'')], timestamp = clock demo_env (now_calls demo_world),
               sender_type = ''override''\<rparr>"
    "active_sessions w' = (active_sessions demo_world)(''uuid0'' \<mapsto>
        demo_session0\<lparr>messages := messages demo_session0 @ [m]\<rparr>)"
    "sent_during demo_world w'
         = [Send SellerSide ''uuid0''
              (JObj [(''type'', JStr ''message''),
                     (''message'', JObj [(''id'', JStr (message_id m)), (''session_id'', JStr (session_id m)),
                                       (''sender'', JStr (sender m)), (''content'', JStr (content m)),
                                       (''timestamp'', JIso (timestamp m)),
                                       (''sender_type'', JStr (sender_type m))]),
                     (''sender'', JStr ''buyer'')])
              (attempt (seller_connections (manager demo_world) ''uuid0''))]"
    "generate_calls w' = generate_calls demo_world"
    by blast
  have m: "m = \<lparr>message_id = ''uuid1'', session_id = ''uuid0'', sender = ''user'',
              content = ''I can pay 5200'', timestamp = 1001, sender_type = ''override''\<rparr>"
    using h(2) by (simp add: get_content_def demo_world_eq demo_env_def digit_char_def)
  have "history w' ''uuid0'' = [m]"
    using h(3) by (simp add: history_def demo_session0_def)
  moreover have "sent_during demo_world w'
            = [Send SellerSide ''uuid0''
                 (JObj [(''type'', JStr ''message''),
                        (''message'', JObj [(''id'', JStr ''uuid1''), (''session_id'', JStr ''uuid0''),
                                           (''sender'', JStr ''user''), (''content'', JStr ''I can pay 5200''),
                                           (''timestamp'', JIso 1001),
                                           (''sender_type'', JStr ''override'')]),
                        (''sender'', JStr ''buyer'')])
                 (Delivered 2)]"
    using h(4) unfolding m by (simp add: demo_world_eq attempt_def)
  moreover have "generate_calls w' = 0"
    using h(5) by (simp add: demo_world_eq)
  ultimately show ?thesis
    using h(1) demo_session0_active unfolding m by blast
qed

text \<open>
  C1. A seller message on an active session appends one message with sender
  \<open>seller\<close> and sender type \<open>human\<close>. When the call of
  \<^verbatim>\<open>generate_response\<close> returns a reply, a message with sender \<open>ai\<close>, sender
  type \<open>ai\<close> and that reply follows it in the history; the seller side is sent the
  dict with the type \<open>message\<close>, the six fields of the agent's message and the
  sender label \<open>buyer\<close>, and the user side is sent the same fields in a dict with
  the type \<open>ai_response\<close> and the sender label \<open>ai\<close>. When the call raises, the
  seller message is the only new one. The handler sets no time limit itself: a call
  that runs out of time is a call that raises.
\<close>

theorem seller_turn_history_and_fan_out:
  assumes "active_sessions w sid = Some session"
  shows "\<exists>m w'. handle_seller_message e sid message_data w = (Returned, w')
     \<and> m = \<lparr>message_id = uuid4 e (uuid_calls w), session_id = sid, sender = ''seller'',
               content = get_content message_data, timestamp = clock e (now_calls w),
               sender_type = ''human''\<rparr>
     \<and> (case generation e (session\<lparr>messages := messages session @ [m]\<rparr>) w of
           Inr reply \<Rightarrow>
             (\<exists>a. a = \<lparr>message_id = uuid4 e (Suc (uuid_calls w)), session_id = sid, sender = ''ai'',
                      content = reply, timestamp = clock e (Suc (now_calls w)),
                      sender_type = ''ai''\<rparr>
                \<and> active_sessions w'
                    = (active_sessions w)(sid \<mapsto> session\<lparr>messages := messages session @ [m, a]\<rparr>)
                \<and> sent_during w w'
                    = [Send UserSide sid
                         (JObj [(''type'', JStr ''message''),
                                (''message'', JObj [(''id'', JStr (message_id m)), (''session_id'', JStr (session_id m)),
                                                  (''sender'', JStr (sender m)), (''content'', JStr (content m)),
                                                  (''timestamp'', JIso (timestamp m)),
                                                  (''sender_type'', JStr (sender_type m))]),
                                (''sender'', JStr ''seller'')])
                         (attempt (user_connections (manager w) sid)),
                       Send SellerSide sid
                         (JObj [(''type'', JStr ''message''),
                                (''message'', JObj [(''id'', JStr (message_id a)), (''session_id'', JStr (session_id a)),
                                                  (''sender'', JStr (sender a)), (''content'', JStr (content a)),
                                                  (''timestamp'', JIso (timestamp a)),
                                                  (''sender_type'', JStr (sender_type a))]),
                                (''sender'', JStr ''buyer'')])
                         (attempt (seller_connections (manager w) sid)),
                       Send UserSide sid
                         (JObj [(''type'', JStr ''ai_response''),
                                (''message'', JObj [(''id'', JStr (message_id a)), (''session_id'', JStr (session_id a)),
                                                  (''sender'', JStr (sender a)), (''content'', JStr (content a)),
                                                  (''timestamp'', JIso (timestamp a)),
                                                  (''sender_type'', JStr (sender_type a))]),
                                (''sender'', JStr ''ai'')])
                         (attempt (user_connections (manager w) sid))])
         | Inl exc \<Rightarrow>
             active_sessions w'
               = (active_sessions w)(sid \<mapsto> session\<lparr>messages := messages session @ [m]\<rparr>))"
proof -
  let ?m = "\<lparr>message_id = uuid4 e (uuid_calls w), session_id = sid, sender = ''seller'',
               content = get_content message_data, timestamp = clock e (now_calls w),
               sender_type = ''human''\<rparr>"
  let ?r = "generation e (session\<lparr>messages := messages session @ [?m]\<rparr>) w"
  show ?thesis
  proof (cases ?r)
    case (Inl exc)
    then show ?thesis
      by (intro exI [of _ ?m]) (simp add: handle_seller_message_active [OF assms])
  next
    case (Inr reply)
    then show ?thesis
      by (intro exI [of _ ?m])
         (simp add: handle_seller_message_active [OF assms] sent_during_def
            message_payload_def serialize_message_def)
  qed
qed

theorem seller_turn_history_and_fan_out_witness:
  "active_sessions demo_world ''uuid0'' = Some demo_session0
   \<and> (\<exists>w'. handle_seller_message demo_env ''uuid0'' [(''content'', ''hi'')] demo_world
              = (Returned, w')
        \<and> history w' ''uuid0''
            = [\<lparr>message_id = ''uuid1'', session_id = ''uuid0'', sender = ''seller'',
                content = ''hi'', timestamp = 1001, sender_type = ''human''\<rparr>,
               \<lparr>message_id = ''uuid2'', session_id = ''uuid0'', sender = ''ai'',
                content = ''Would 5,000 work for you?'', timestamp = 1002, sender_type = ''ai''\<rparr>]
        \<and> sent_during demo_world w'
            = [Send UserSide ''uuid0''
                 (JObj [(''type'', JStr ''message''),
                        (''message'', JObj [(''id'', JStr ''uuid1''), (''session_id'', JStr ''uuid0''),
                                           (''sender'', JStr ''seller''), (''content'', JStr ''hi''),
                                           (''timestamp'', JIso 1001),
                                           (''sender_type'', JStr ''human'')]),
                        (''sender'', JStr ''seller'')])
                 (Delivered 1),
               Send SellerSide ''uuid0''
                 (JObj [(''type'', JStr ''message''),
                        (''message'', JObj [(''id'', JStr ''uuid2''), (''session_id'', JStr ''uuid0''),
                                           (''sender'', JStr ''ai''), (''content'', JStr ''Would 5,000 work for you?''),
                                           (''timestamp'', JIso 1002),
                                           (''sender_type'', JStr ''ai'')]),
                        (''sender'', JStr ''buyer'')])
                 (Delivered 2),
               Send UserSide ''uuid0''
                 (JObj [(''type'', JStr ''ai_response''),
                        (''message'', JObj [(''id'', JStr ''uuid2''), (''session_id'', JStr ''uuid0''),
                                           (''sender'', JStr ''ai''), (''content'', JStr ''Would 5,000 work for you?''),
                                           (''timestamp'', JIso 1002),
                                           (''sender_type'', JStr ''ai'')]),
                        (''sender'', JStr ''ai'')])
                 (Delivered 1)])"
proof -
  let ?m = "\<lparr>message_id = ''uuid1'', session_id = ''uuid0'', sender = ''seller'',
                content = ''hi'', timestamp = 1001, sender_type = ''human''\<rparr>"
  let ?a = "\<lparr>message_id = ''uuid2'', session_id = ''uuid0'', sender = ''ai'',
                content = ''Would 5,000 work for you?'', timestamp = 1002, sender_type = ''ai''\<rparr>"
  from seller_turn_history_and_fan_out [OF demo_session0_active, of demo_env "[(''content'', ''hi'')]"]
  obtain m w' where h:
    "handle_seller_message demo_env ''uuid0'' [(''content'', ''hi'')] demo_world = (Returned, w')"
    "m = \<lparr>message_id = uuid4 demo_env (uuid_calls demo_world), session_id = ''uuid0'', sender = ''seller'',
               content = get_content [(''content'', ''hi'')], timestamp = clock demo_env (now_calls demo_world),
               sender_type = ''human''\<rparr>"
    and c: "case generation demo_env (demo_session0\<lparr>messages := messages demo_session0 @ [m]\<rparr>) demo_world of
           Inr reply \<Rightarrow>
             (\<exists>a. a = \<lparr>message_id = uuid4 demo_env (Suc (uuid_calls demo_world)), session_id = ''uuid0'', sender = ''ai'',
                      content = reply, timestamp = clock demo_env (Suc (now_calls demo_world)),
                      sender_type = ''ai''\<rparr>
                \<and> active_sessions w'
                    = (active_sessions demo_world)(''uuid0'' \<mapsto>
                         demo_session0\<lparr>messages := messages demo_session0 @ [m, a]\<rparr>)
                \<and> sent_during demo_world w'
                    = [Send UserSide ''uuid0''
                         (JObj [(''type'', JStr ''message''),
                                (''message'', JObj [(''id'', JStr (message_id m)), (''session_id'', JStr (session_id m)),
                                                  (''sender'', JStr (sender m)), (''content'', JStr (content m)),
                                                  (''timestamp'', JIso (timestamp m)),
                                                  (''sender_type'', JStr (sender_type m))]),
                                (''sender'', JStr ''seller'')])
                         (attempt (user_connections (manager demo_world) ''uuid0'')),
                       Send SellerSide ''uuid0''
                         (JObj [(''type'', JStr ''message''),
                                (''message'', JObj [(''id'', JStr (message_id a)), (''session_id'', JStr (session_id a)),
                                                  (''sender'', JStr (sender a)), (''content'', JStr (content a)),
                                                  (''timestamp'', JIso (timestamp a)),
                                                  (''sender_type'', JStr (sender_type a))]),
                                (''sender'', JStr ''buyer'')])
                         (attempt (seller_connections (manager demo_world) ''uuid0'')),
                       Send UserSide ''uuid0''
                         (JObj [(''type'', JStr ''ai_response''),
                                (''message'', JObj [(''id'', JStr (message_id a)), (''session_id'', JStr (session_id a)),
                                                  (''sender'', JStr (sender a)), (''content'', JStr (content a)),
                                                  (''timestamp'', JIso (timestamp a)),
                                                  (''sender_type'', JStr (sender_type a))]),
                                (''sender'', JStr ''ai'')])
                         (attempt (user_connections (manager demo_world) ''uuid0''))])
         | Inl exc \<Rightarrow>
             active_sessions w'
               = (active_sessions demo_world)(''uuid0'' \<mapsto>
                    demo_session0\<lparr>messages := messages demo_session0 @ [m]\<rparr>)"
    by blast
  have m: "m = ?m"
    using h(2) by (simp add: get_content_def demo_world_eq demo_env_def digit_char_def)
  from c obtain a where a:
    "a = \<lparr>message_id = uuid4 demo_env (Suc (uuid_calls demo_world)), session_id = ''uuid0'', sender = ''ai'',
          content = ''Would 5,000 work for you?'', timestamp = clock demo_env (Suc (now_calls demo_world)),
          sender_type = ''ai''\<rparr>"
    "active_sessions w' = (active_sessions demo_world)(''uuid0'' \<mapsto>
                         demo_session0\<lparr>messages := messages demo_session0 @ [m, a]\<rparr>)"
    "sent_during demo_world w'
                    = [Send UserSide ''uuid0''
                         (JObj [(''type'', JStr ''message''),
                                (''message'', JObj [(''id'', JStr (message_id m)), (''session_id'', JStr (session_id m)),
                                                  (''sender'', JStr (sender m)), (''content'', JStr (content m)),
                                                  (''timestamp'', JIso (timestamp m)),
                                                  (''sender_type'', JStr (sender_type m))]),
                                (''sender'', JStr ''seller'')])
                         (attempt (user_connections (manager demo_world) ''uuid0'')),
                       Send SellerSide ''uuid0''
                         (JObj [(''type'', JStr ''message''),
                                (''message'', JObj [(''id'', JStr (message_id a)), (''session_id'', JStr (session_id a)),
                                                  (''sender'', JStr (sender a)), (''content'', JStr (content a)),
                                                  (''timestamp'', JIso (timestamp a)),
                                                  (''sender_type'', JStr (sender_type a))]),
                                (''sender'', JStr ''buyer'')])
                         (attempt (seller_connections (manager demo_world) ''uuid0'')),
                       Send UserSide ''uuid0''
                         (JObj [(''type'', JStr ''ai_response''),
                                (''message'', JObj [(''id'', JStr (message_id a)), (''session_id'', JStr (session_id a)),
                                                  (''sender'', JStr (sender a)), (''content'', JStr (content a)),
                                                  (''timestamp'', JIso (timestamp a)),
                                                  (''sender_type'', JStr (sender_type a))]),
                                (''sender'', JStr ''ai'')])
                         (attempt (user_connections (manager demo_world) ''uuid0''))]"
    by (auto simp add: demo_generation)
  have a': "a = ?a"
    using a(1) by (simp add: demo_world_eq demo_env_def digit_char_def)
  have "history w' ''uuid0'' = [?m, ?a]"
    using a(2) unfolding m a' by (simp add: history_def demo_session0_def)
  moreover have "sent_during demo_world w'
            = [Send UserSide ''uuid0''
                 (JObj [(''type'', JStr ''message''),
                        (''message'', JObj [(''id'', JStr ''uuid1''), (''session_id'', JStr ''uuid0''),
                                           (''sender'', JStr ''seller''), (''content'', JStr ''hi''),
                                           (''timestamp'', JIso 1001),
                                           (''sender_type'', JStr ''human'')]),
                        (''sender'', JStr ''seller'')])
                 (Delivered 1),
               Send SellerSide ''uuid0''
                 (JObj [(''type'', JStr ''message''),
                        (''message'', JObj [(''id'', JStr ''uuid2''), (''session_id'', JStr ''uuid0''),
                                           (''sender'', JStr ''ai''), (''content'', JStr ''Would 5,000 work for you?''),
                                           (''timestamp'', JIso 1002),
                                           (''sender_type'', JStr ''ai'')]),
                        (''sender'', JStr ''buyer'')])
                 (Delivered 2),
               Send UserSide ''uuid0''
                 (JObj [(''type'', JStr ''ai_response''),
                        (''message'', JObj [(''id'', JStr ''uuid2''), (''session_id'', JStr ''uuid0''),
                                           (''sender'', JStr ''ai''), (''content'', JStr ''Would 5,000 work for you?''),
                                           (''timestamp'', JIso 1002),
                                           (''sender_type'', JStr ''ai'')]),
                        (''sender'', JStr ''ai'')])
                 (Delivered 1)]"
    using a(3) unfolding m a' by (simp add: demo_world_eq attempt_def)
  ultimately show ?thesis
    using h(1) demo_session0_active by blast
qed

text \<open>
  C2. When the generation of a seller turn raises (a timeout of the call is an
  exception like any other), the history gains the seller message and nothing else,
  the user side is sent the seller's message and then one error payload, and nothing
  is sent to the seller side.
\<close>

theorem failed_generation_reaches_user_only:
  assumes "active_sessions w sid = Some session"
  shows "\<exists>m w'. handle_seller_message e sid message_data w = (Returned, w')
     \<and> sender m = ''seller'' \<and> sender_type m = ''human'' \<and> content m = get_content message_data
     \<and> (isl (generation e (session\<lparr>messages := messages session @ [m]\<rparr>) w) \<longrightarrow>
           history w' sid = history w sid @ [m]
         \<and> sent_during w w'
             = [Send UserSide sid (message_payload ''message'' m ''seller'')
                  (attempt (user_connections (manager w) sid)),
                Send UserSide sid error_payload (attempt (user_connections (manager w) sid))]
         \<and> filter (\<lambda>s. send_role s = SellerSide) (sent_during w w') = []
         \<and> filter (\<lambda>s. payload_type (send_payload s) = Some (JStr ''error'')) (sent_during w w')
             = [Send UserSide sid error_payload (attempt (user_connections (manager w) sid))])"
proof -
  let ?m = "\<lparr>message_id = uuid4 e (uuid_calls w), session_id = sid, sender = ''seller'',
             content = get_content message_data, timestamp = clock e (now_calls w),
             sender_type = ''human''\<rparr>"
  let ?r = "generation e (session\<lparr>messages := messages session @ [?m]\<rparr>) w"
  show ?thesis
  proof (cases ?r)
    case (Inl exc)
    with assms show ?thesis
      by (intro exI [of _ ?m])
         (simp add: handle_seller_message_active [OF assms] history_def sent_during_def)
  next
    case (Inr reply)
    then show ?thesis
      by (intro exI [of _ ?m]) (simp add: handle_seller_message_active [OF assms])
  qed
qed

theorem failed_generation_reaches_user_only_witness:
  "active_sessions demo_world ''uuid0'' = Some demo_session0
   \<and> (\<exists>m w'. handle_seller_message failing_env ''uuid0''
                  [(''content'', ''500000 firm price, no negotiation'')] demo_world = (Returned, w')
        \<and> sender m = ''seller'' \<and> content m = ''500000 firm price, no negotiation''
        \<and> history w' ''uuid0'' = [m]
        \<and> sent_during demo_world w'
            = [Send UserSide ''uuid0'' (message_payload ''message'' m ''seller'') (Delivered 1),
               Send UserSide ''uuid0'' error_payload (Delivered 1)]
        \<and> filter (\<lambda>s. send_role s = SellerSide) (sent_during demo_world w') = [])"
proof -
  from failed_generation_reaches_user_only [OF demo_session0_active, of failing_env
         "[(''content'', ''500000 firm price, no negotiation'')]"]
  obtain m w' where h:
    "handle_seller_message failing_env ''uuid0''
       [(''content'', ''500000 firm price, no negotiation'')] demo_world = (Returned, w')"
    "sender m = ''seller''"
    "content m = get_content [(''content'', ''500000 firm price, no negotiation'')]"
    and c: "isl (generation failing_env (demo_session0\<lparr>messages := messages demo_session0 @ [m]\<rparr>) demo_world) \<longrightarrow>
           history w' ''uuid0'' = history demo_world ''uuid0'' @ [m]
         \<and> sent_during demo_world w'
             = [Send UserSide ''uuid0'' (message_payload ''message'' m ''seller'')
                  (attempt (user_connections (manager demo_world) ''uuid0'')),
                Send UserSide ''uuid0'' error_payload (attempt (user_connections (manager demo_world) ''uuid0''))]
         \<and> filter (\<lambda>s. send_role s = SellerSide) (sent_during demo_world w') = []
         \<and> filter (\<lambda>s. payload_type (send_payload s) = Some (JStr ''error'')) (sent_during demo_world w')
             = [Send UserSide ''uuid0'' error_payload (attempt (user_connections (manager demo_world) ''uuid0''))]"
    by blast
  from c have d:
    "history w' ''uuid0'' = history demo_world ''uuid0'' @ [m]"
    "sent_during demo_world w'
             = [Send UserSide ''uuid0'' (message_payload ''message'' m ''seller'')
                  (attempt (user_connections (manager demo_world) ''uuid0'')),
                Send UserSide ''uuid0'' error_payload (attempt (user_connections (manager demo_world) ''uuid0''))]"
    "filter (\<lambda>s. send_role s = SellerSide) (sent_during demo_world w') = []"
    by (simp_all add: failing_generation)
  have "content m = ''500000 firm price, no negotiation''"
    using h(3) by (simp add: get_content_def)
  moreover have "history w' ''uuid0'' = [m]"
    using d(1) by (simp add: history_def demo_world_eq demo_session0_def)
  moreover have "sent_during demo_world w'
            = [Send UserSide ''uuid0'' (message_payload ''message'' m ''seller'') (Delivered 1),
               Send UserSide ''uuid0'' error_payload (Delivered 1)]"
    using d(2) by (simp add: demo_world_eq attempt_def)
  ultimately show ?thesis
    using h(1,2) d(3) demo_session0_active by blast
qed

lemma appended_first_mono:
  "appended_first seen effects \<Longrightarrow> set seen \<subseteq> set seen' \<Longrightarrow> appended_first seen' effects"
proof (induction seen effects arbitrary: seen' rule: appended_first.induct)
  case (1 seen)
  then show ?case by simp
next
  case (2 seen sid m effects)
  from "2.prems" have "set ((sid, serialize_message m) # seen)
      \<subseteq> set ((sid, serialize_message m) # seen')"
    by auto
  with "2.IH" "2.prems" show ?case by simp
next
  case (3 seen r sid payload res effects)
  then show ?case by (auto split: option.splits)
qed

lemma appended_first_append:
  "appended_first seen xs \<Longrightarrow> appended_first seen' ys \<Longrightarrow> set seen' \<subseteq> set seen \<Longrightarrow>
     appended_first seen (xs @ ys)"
proof (induction seen xs rule: appended_first.induct)
  case (1 seen)
  then show ?case by (simp add: appended_first_mono)
next
  case (2 seen sid m effects)
  from "2.prems" have "set seen' \<subseteq> set ((sid, serialize_message m) # seen)"
    by auto
  with "2.IH" "2.prems" show ?case by simp
next
  case (3 seen r sid payload res effects)
  then show ?case by simp
qed

lemma step_trace:
  "\<exists>new. trace (step e c w) = trace w @ new \<and> appended_first [] new"
proof (cases c)
  case (Start params)
  then show ?thesis by (simp add: start_negotiation_state)
next
  case (End sid result)
  then show ?thesis
    by (cases "active_sessions w sid")
       (simp_all add: end_negotiation_absent end_negotiation_active)
next
  case (UserMessage sid message_data)
  show ?thesis
  proof (cases "active_sessions w sid")
    case None
    with UserMessage show ?thesis by (simp add: handle_user_message_def)
  next
    case (Some session)
    with UserMessage show ?thesis
      by (simp add: handle_user_message_active [OF Some])
  qed
next
  case (SellerMessage sid message_data)
  show ?thesis
  proof (cases "active_sessions w sid")
    case None
    with SellerMessage show ?thesis by (simp add: handle_seller_message_def)
  next
    case (Some session)
    with SellerMessage show ?thesis
      by (simp add: handle_seller_message_active [OF Some] split: sum.split)
  qed
next
  case (ConnectUser websocket sid)
  then show ?thesis by simp
next
  case (ConnectSeller websocket sid)
  then show ?thesis by simp
qed

lemma run_trace:
  "appended_first [] (trace w) \<Longrightarrow> appended_first [] (trace (run e cs w))"
proof (induction cs arbitrary: w)
  case Nil
  then show ?case by simp
next
  case (Cons c cs)
  obtain new where new: "trace (step e c w) = trace w @ new" "appended_first [] new"
    using step_trace by blast
  from Cons.prems new(2) have "appended_first [] (trace w @ new)"
    by (rule appended_first_append) simp
  with new(1) have "appended_first [] (trace (step e c w))" by simp
  then show ?case using Cons.IH by simp
qed

lemma quiet_generation:
  "generation demo_env (demo_session0\<lparr>messages := ms\<rparr>) quiet_world = Inr ''Would 5,000 work for you?''"
  by (simp add: generation_def quiet_world_eq get_product_def demo_session0_def
        generate_response_replies demo_service_def demo_env_def)

text \<open>
  C4. On an active session, whether or not an endpoint is attached, both handlers
  return without raising; the inbound message is appended to the history of the
  session (the history after the call is the history before it, then this message,
  then the agent's reply if there is one); and the effects come in this order: the
  message is appended, then it is handed to Send. A send to a side with no endpoint
  returns "peer absent" to its caller, records the drop and changes nothing else.
  Over every run of the process from its start, no call of Send carries a message that
  was not appended to the history of that session before.
\<close>

theorem history_holds_what_is_sent:
  assumes "active_sessions w sid = Some session"
  shows "(\<exists>m w'. handle_user_message e sid message_data w = (Returned, w')
        \<and> m = \<lparr>message_id = uuid4 e (uuid_calls w), session_id = sid, sender = ''user'',
              content = get_content message_data, timestamp = clock e (now_calls w),
              sender_type = ''override''\<rparr>
        \<and> history w' sid = history w sid @ [m]
        \<and> trace w' = trace w @
             [Appended sid m,
              Sending SellerSide sid
                (JObj [(''type'', JStr ''message''),
                       (''message'', JObj [(''id'', JStr (message_id m)), (''session_id'', JStr (session_id m)),
                                         (''sender'', JStr (sender m)), (''content'', JStr (content m)),
                                         (''timestamp'', JIso (timestamp m)),
                                         (''sender_type'', JStr (sender_type m))]),
                       (''sender'', JStr ''buyer'')])
                (Inr (attempt (seller_connections (manager w) sid)))])
   \<and> (\<exists>m w'. handle_seller_message e sid message_data w = (Returned, w')
        \<and> m = \<lparr>message_id = uuid4 e (uuid_calls w), session_id = sid, sender = ''seller'',
              content = get_content message_data, timestamp = clock e (now_calls w),
              sender_type = ''human''\<rparr>
        \<and> ((\<exists>a reply.
                generation e (session\<lparr>messages := messages session @ [m]\<rparr>) w = Inr reply
              \<and> a = \<lparr>message_id = uuid4 e (Suc (uuid_calls w)), session_id = sid, sender = ''ai'',
                    content = reply, timestamp = clock e (Suc (now_calls w)),
                    sender_type = ''ai''\<rparr>
              \<and> history w' sid = history w sid @ [m, a]
              \<and> trace w' = trace w @
                   [Appended sid m,
                    Sending UserSide sid
                      (JObj [(''type'', JStr ''message''),
                             (''message'', JObj [(''id'', JStr (message_id m)), (''session_id'', JStr (session_id m)),
                                               (''sender'', JStr (sender m)), (''content'', JStr (content m)),
                                               (''timestamp'', JIso (timestamp m)),
                                               (''sender_type'', JStr (sender_type m))]),
                             (''sender'', JStr ''seller'')])
                      (Inr (attempt (user_connections (manager w) sid))),
                    Appended sid a,
                    Sending SellerSide sid
                      (JObj [(''type'', JStr ''message''),
                             (''message'', JObj [(''id'', JStr (message_id a)), (''session_id'', JStr (session_id a)),
                                               (''sender'', JStr (sender a)), (''content'', JStr (content a)),
                                               (''timestamp'', JIso (timestamp a)),
                                               (''sender_type'', JStr (sender_type a))]),
                             (''sender'', JStr ''buyer'')])
                      (Inr (attempt (seller_connections (manager w) sid))),
                    Sending UserSide sid
                      (JObj [(''type'', JStr ''ai_response''),
                             (''message'', JObj [(''id'', JStr (message_id a)), (''session_id'', JStr (session_id a)),
                                               (''sender'', JStr (sender a)), (''content'', JStr (content a)),
                                               (''timestamp'', JIso (timestamp a)),
                                               (''sender_type'', JStr (sender_type a))]),
                             (''sender'', JStr ''ai'')])
                      (Inr (attempt (user_connections (manager w) sid)))])
           \<or> (isl (generation e (session\<lparr>messages := messages session @ [m]\<rparr>) w)
              \<and> history w' sid = history w sid @ [m]
              \<and> trace w' = trace w @
                   [Appended sid m,
                    Sending UserSide sid
                      (JObj [(''type'', JStr ''message''),
                             (''message'', JObj [(''id'', JStr (message_id m)), (''session_id'', JStr (session_id m)),
                                               (''sender'', JStr (sender m)), (''content'', JStr (content m)),
                                               (''timestamp'', JIso (timestamp m)),
                                               (''sender_type'', JStr (sender_type m))]),
                             (''sender'', JStr ''seller'')])
                      (Inr (attempt (user_connections (manager w) sid))),
                    Sending UserSide sid
                      (JObj [(''type'', JStr ''error''), (''message'', JStr ''Failed to generate AI response'')])
                      (Inr (attempt (user_connections (manager w) sid)))])))
   \<and> (user_connections (manager w) sid = None \<longrightarrow>
        send_to_user sid payload (manager w)
          = (Inr PeerAbsent,
             (manager w)\<lparr>sent := sent (manager w) @ [Send UserSide sid payload PeerAbsent]\<rparr>))
   \<and> (seller_connections (manager w) sid = None \<longrightarrow>
        send_to_seller sid payload (manager w)
          = (Inr PeerAbsent,
             (manager w)\<lparr>sent := sent (manager w) @ [Send SellerSide sid payload PeerAbsent]\<rparr>))
   \<and> appended_first [] (trace (run e cs (init_world d svc)))"
proof -
  let ?u = "\<lparr>message_id = uuid4 e (uuid_calls w), session_id = sid, sender = ''user'',
               content = get_content message_data, timestamp = clock e (now_calls w),
               sender_type = ''override''\<rparr>"
  let ?s = "\<lparr>message_id = uuid4 e (uuid_calls w), session_id = sid, sender = ''seller'',
               content = get_content message_data, timestamp = clock e (now_calls w),
               sender_type = ''human''\<rparr>"
  have user: "\<exists>m w'. handle_user_message e sid message_data w = (Returned, w')
        \<and> m = \<lparr>message_id = uuid4 e (uuid_calls w), session_id = sid, sender = ''user'',
              content = get_content message_data, timestamp = clock e (now_calls w),
              sender_type = ''override''\<rparr>
        \<and> history w' sid = history w sid @ [m]
        \<and> trace w' = trace w @
             [Appended sid m,
              Sending SellerSide sid
                (JObj [(''type'', JStr ''message''),
                       (''message'', JObj [(''id'', JStr (message_id m)), (''session_id'', JStr (session_id m)),
                                         (''sender'', JStr (sender m)), (''content'', JStr (content m)),
                                         (''timestamp'', JIso (timestamp m)),
                                         (''sender_type'', JStr (sender_type m))]),
                       (''sender'', JStr ''buyer'')])
                (Inr (attempt (seller_connections (manager w) sid)))]"
    using assms
    by (intro exI [of _ ?u])
       (simp add: handle_user_message_active [OF assms] history_def message_payload_def
          serialize_message_def)
  have seller: "\<exists>m w'. handle_seller_message e sid message_data w = (Returned, w')
        \<and> m = \<lparr>message_id = uuid4 e (uuid_calls w), session_id = sid, sender = ''seller'',
              content = get_content message_data, timestamp = clock e (now_calls w),
              sender_type = ''human''\<rparr>
        \<and> ((\<exists>a reply.
                generation e (session\<lparr>messages := messages session @ [m]\<rparr>) w = Inr reply
              \<and> a = \<lparr>message_id = uuid4 e (Suc (uuid_calls w)), session_id = sid, sender = ''ai'',
                    content = reply, timestamp = clock e (Suc (now_calls w)),
                    sender_type = ''ai''\<rparr>
              \<and> history w' sid = history w sid @ [m, a]
              \<and> trace w' = trace w @
                   [Appended sid m,
                    Sending UserSide sid
                      (JObj [(''type'', JStr ''message''),
                             (''message'', JObj [(''id'', JStr (message_id m)), (''session_id'', JStr (session_id m)),
                                               (''sender'', JStr (sender m)), (''content'', JStr (content m)),
                                               (''timestamp'', JIso (timestamp m)),
                                               (''sender_type'', JStr (sender_type m))]),
                             (''sender'', JStr ''seller'')])
                      (Inr (attempt (user_connections (manager w) sid))),
                    Appended sid a,
                    Sending SellerSide sid
                      (JObj [(''type'', JStr ''message''),
                             (''message'', JObj [(''id'', JStr (message_id a)), (''session_id'', JStr (session_id a)),
                                               (''sender'', JStr (sender a)), (''content'', JStr (content a)),
                                               (''timestamp'', JIso (timestamp a)),
                                               (''sender_type'', JStr (sender_type a))]),
                             (''sender'', JStr ''buyer'')])
                      (Inr (attempt (seller_connections (manager w) sid))),
                    Sending UserSide sid
                      (JObj [(''type'', JStr ''ai_response''),
                             (''message'', JObj [(''id'', JStr (message_id a)), (''session_id'', JStr (session_id a)),
                                               (''sender'', JStr (sender a)), (''content'', JStr (content a)),
                                               (''timestamp'', JIso (timestamp a)),
                                               (''sender_type'', JStr (sender_type a))]),
                             (''sender'', JStr ''ai'')])
                      (Inr (attempt (user_connections (manager w) sid)))])
           \<or> (isl (generation e (session\<lparr>messages := messages session @ [m]\<rparr>) w)
              \<and> history w' sid = history w sid @ [m]
              \<and> trace w' = trace w @
                   [Appended sid m,
                    Sending UserSide sid
                      (JObj [(''type'', JStr ''message''),
                             (''message'', JObj [(''id'', JStr (message_id m)), (''session_id'', JStr (session_id m)),
                                               (''sender'', JStr (sender m)), (''content'', JStr (content m)),
                                               (''timestamp'', JIso (timestamp m)),
                                               (''sender_type'', JStr (sender_type m))]),
                             (''sender'', JStr ''seller'')])
                      (Inr (attempt (user_connections (manager w) sid))),
                    Sending UserSide sid
                      (JObj [(''type'', JStr ''error''), (''message'', JStr ''Failed to generate AI response'')])
                      (Inr (attempt (user_connections (manager w) sid)))]))"
  proof (cases "generation e (session\<lparr>messages := messages session @ [?s]\<rparr>) w")
    case (Inl exc)
    with assms show ?thesis
      by (intro exI [of _ ?s])
         (simp add: handle_seller_message_active [OF assms] history_def message_payload_def
            serialize_message_def error_payload_def)
  next
    case (Inr reply)
    with assms show ?thesis
      by (intro exI [of _ ?s])
         (simp add: handle_seller_message_active [OF assms] history_def message_payload_def
            serialize_message_def)
  qed
  have absent: "(user_connections (manager w) sid = None \<longrightarrow>
        send_to_user sid payload (manager w)
          = (Inr PeerAbsent,
             (manager w)\<lparr>sent := sent (manager w) @ [Send UserSide sid payload PeerAbsent]\<rparr>))
   \<and> (seller_connections (manager w) sid = None \<longrightarrow>
        send_to_seller sid payload (manager w)
          = (Inr PeerAbsent,
             (manager w)\<lparr>sent := sent (manager w) @ [Send SellerSide sid payload PeerAbsent]\<rparr>))"
    by (simp add: send_to_user_def send_to_seller_def attempt_def)
  have "appended_first [] (trace (init_world d svc))"
    by (simp add: init_world_def)
  then have ordered: "appended_first [] (trace (run e cs (init_world d svc)))"
    by (rule run_trace)
  show ?thesis
    by (rule conjI [OF user conjI [OF seller conjI [OF absent [THEN conjunct1]
          conjI [OF absent [THEN conjunct2] ordered]]]])
qed

theorem history_holds_what_is_sent_witness:
  "active_sessions quiet_world ''uuid0'' = Some demo_session0
   \<and> (\<exists>w'. handle_user_message demo_env ''uuid0'' [(''content'', ''I can pay 5200'')] quiet_world
              = (Returned, w')
        \<and> history w' ''uuid0''
            = [\<lparr>message_id = ''uuid1'', session_id = ''uuid0'', sender = ''user'',
                content = ''I can pay 5200'', timestamp = 1001, sender_type = ''override''\<rparr>]
        \<and> trace w'
            = [Appended ''uuid0''
                 \<lparr>message_id = ''uuid1'', session_id = ''uuid0'', sender = ''user'',
                     content = ''I can pay 5200'', timestamp = 1001, sender_type = ''override''\<rparr>,
               Sending SellerSide ''uuid0''
                 (JObj [(''type'', JStr ''message''),
                        (''message'', JObj [(''id'', JStr ''uuid1''), (''session_id'', JStr ''uuid0''),
                                           (''sender'', JStr ''user''), (''content'', JStr ''I can pay 5200''),
                                           (''timestamp'', JIso 1001),
                                           (''sender_type'', JStr ''override'')]),
                        (''sender'', JStr ''buyer'')])
                 (Inr PeerAbsent)])
   \<and> (\<exists>w'. handle_seller_message demo_env ''uuid0'' [(''content'', ''hi'')] quiet_world
              = (Returned, w')
        \<and> history w' ''uuid0''
            = [\<lparr>message_id = ''uuid1'', session_id = ''uuid0'', sender = ''seller'',
                content = ''hi'', timestamp = 1001, sender_type = ''human''\<rparr>,
               \<lparr>message_id = ''uuid2'', session_id = ''uuid0'', sender = ''ai'',
                content = ''Would 5,000 work for you?'', timestamp = 1002, sender_type = ''ai''\<rparr>]
        \<and> trace w'
            = [Appended ''uuid0''
                 \<lparr>message_id = ''uuid1'', session_id = ''uuid0'', sender = ''seller'',
                     content = ''hi'', timestamp = 1001, sender_type = ''human''\<rparr>,
               Sending UserSide ''uuid0''
                 (JObj [(''type'', JStr ''message''),
                        (''message'', JObj [(''id'', JStr ''uuid1''), (''session_id'', JStr ''uuid0''),
                                           (''sender'', JStr ''seller''), (''content'', JStr ''hi''),
                                           (''timestamp'', JIso 1001),
                                           (''sender_type'', JStr ''human'')]),
                        (''sender'', JStr ''seller'')])
                 (Inr PeerAbsent),
               Appended ''uuid0''
                 \<lparr>message_id = ''uuid2'', session_id = ''uuid0'', sender = ''ai'',
                     content = ''Would 5,000 work for you?'', timestamp = 1002, sender_type = ''ai''\<rparr>,
               Sending SellerSide ''uuid0''
                 (JObj [(''type'', JStr ''message''),
                        (''message'', JObj [(''id'', JStr ''uuid2''), (''session_id'', JStr ''uuid0''),
                                           (''sender'', JStr ''ai''), (''content'', JStr ''Would 5,000 work for you?''),
                                           (''timestamp'', JIso 1002),
                                           (''sender_type'', JStr ''ai'')]),
                        (''sender'', JStr ''buyer'')])
                 (Inr PeerAbsent),
               Sending UserSide ''uuid0''
                 (JObj [(''type'', JStr ''ai_response''),
                        (''message'', JObj [(''id'', JStr ''uuid2''), (''session_id'', JStr ''uuid0''),
                                           (''sender'', JStr ''ai''), (''content'', JStr ''Would 5,000 work for you?''),
                                           (''timestamp'', JIso 1002),
                                           (''sender_type'', JStr ''ai'')]),
                        (''sender'', JStr ''ai'')])
                 (Inr PeerAbsent)])
   \<and> fst (send_to_user ''uuid0'' error_payload (manager quiet_world)) = Inr PeerAbsent
   \<and> sent (snd (send_to_user ''uuid0'' error_payload (manager quiet_world)))
       = [Send UserSide ''uuid0'' error_payload PeerAbsent]
   \<and> fst (send_to_seller ''uuid0'' error_payload (manager quiet_world)) = Inr PeerAbsent
   \<and> sent (snd (send_to_seller ''uuid0'' error_payload (manager quiet_world)))
       = [Send SellerSide ''uuid0'' error_payload PeerAbsent]
   \<and> appended_first []
        (trace (run demo_env
           [Start demo_params, SellerMessage ''uuid0'' [(''content'', ''hi'')],
            UserMessage ''uuid0'' [(''content'', ''I can pay 5200'')]]
           (init_world demo_db demo_service)))"
proof -
  let ?cu = "\<lparr>message_id = ''uuid1'', session_id = ''uuid0'', sender = ''user'',
                content = ''I can pay 5200'', timestamp = 1001, sender_type = ''override''\<rparr>"
  let ?cs = "\<lparr>message_id = ''uuid1'', session_id = ''uuid0'', sender = ''seller'',
                content = ''hi'', timestamp = 1001, sender_type = ''human''\<rparr>"
  let ?ca = "\<lparr>message_id = ''uuid2'', session_id = ''uuid0'', sender = ''ai'',
                content = ''Would 5,000 work for you?'', timestamp = 1002, sender_type = ''ai''\<rparr>"
  note inst = history_holds_what_is_sent [OF quiet_session0_active,
      where e = demo_env and payload = error_payload and d = demo_db and svc = demo_service
        and cs = "[Start demo_params, SellerMessage ''uuid0'' [(''content'', ''hi'')],
            UserMessage ''uuid0'' [(''content'', ''I can pay 5200'')]]"]
  have u: "user_connections (manager quiet_world) ''uuid0'' = None"
    and s: "seller_connections (manager quiet_world) ''uuid0'' = None"
    and sent0: "sent (manager quiet_world) = []"
    and trace0: "trace quiet_world = []"
    and hist0: "history quiet_world ''uuid0'' = []"
    and uuid0: "uuid4 demo_env (uuid_calls quiet_world) = ''uuid1''"
    and uuid1: "uuid4 demo_env (Suc (uuid_calls quiet_world)) = ''uuid2''"
    and now0: "clock demo_env (now_calls quiet_world) = 1001"
    and now1: "clock demo_env (Suc (now_calls quiet_world)) = 1002"
    by (simp_all add: quiet_world_eq history_def demo_session0_def demo_env_def digit_char_def)
  have content: "get_content [(''content'', ''I can pay 5200'')] = ''I can pay 5200''"
    "get_content [(''content'', ''hi'')] = ''hi''"
    by (simp_all add: get_content_def)
  from inst [where message_data = "[(''content'', ''I can pay 5200'')]"]
  obtain mu wu where user:
    "handle_user_message demo_env ''uuid0'' [(''content'', ''I can pay 5200'')] quiet_world = (Returned, wu)"
    "mu = \<lparr>message_id = uuid4 demo_env (uuid_calls quiet_world), session_id = ''uuid0'', sender = ''user'',
           content = get_content [(''content'', ''I can pay 5200'')], timestamp = clock demo_env (now_calls quiet_world),
           sender_type = ''override''\<rparr>"
    "history wu ''uuid0'' = history quiet_world ''uuid0'' @ [mu]"
    "trace wu = trace quiet_world @
             [Appended ''uuid0'' mu,
              Sending SellerSide ''uuid0''
                (JObj [(''type'', JStr ''message''),
                       (''message'', JObj [(''id'', JStr (message_id mu)), (''session_id'', JStr (session_id mu)),
                                         (''sender'', JStr (sender mu)), (''content'', JStr (content mu)),
                                         (''timestamp'', JIso (timestamp mu)),
                                         (''sender_type'', JStr (sender_type mu))]),
                       (''sender'', JStr ''buyer'')])
                (Inr (attempt (seller_connections (manager quiet_world) ''uuid0'')))]"
    by blast
  have mu: "mu = ?cu"
    using user(2) by (simp add: content uuid0 now0)
  have user_part: "\<exists>w'. handle_user_message demo_env ''uuid0'' [(''content'', ''I can pay 5200'')] quiet_world
              = (Returned, w')
        \<and> history w' ''uuid0'' = [?cu]
        \<and> trace w'
            = [Appended ''uuid0'' ?cu,
               Sending SellerSide ''uuid0''
                 (JObj [(''type'', JStr ''message''),
                        (''message'', JObj [(''id'', JStr ''uuid1''), (''session_id'', JStr ''uuid0''),
                                           (''sender'', JStr ''user''), (''content'', JStr ''I can pay 5200''),
                                           (''timestamp'', JIso 1001),
                                           (''sender_type'', JStr ''override'')]),
                        (''sender'', JStr ''buyer'')])
                 (Inr PeerAbsent)]"
    using user(1,3,4) unfolding mu by (simp add: hist0 trace0 s attempt_def)
  from inst [where message_data = "[(''content'', ''hi'')]"]
  obtain ms ws where seller:
    "handle_seller_message demo_env ''uuid0'' [(''content'', ''hi'')] quiet_world = (Returned, ws)"
    "ms = \<lparr>message_id = uuid4 demo_env (uuid_calls quiet_world), session_id = ''uuid0'', sender = ''seller'',
           content = get_content [(''content'', ''hi'')], timestamp = clock demo_env (now_calls quiet_world),
           sender_type = ''human''\<rparr>"
    and alt: "(\<exists>a reply.
                generation demo_env (demo_session0\<lparr>messages := messages demo_session0 @ [ms]\<rparr>) quiet_world = Inr reply
              \<and> a = \<lparr>message_id = uuid4 demo_env (Suc (uuid_calls quiet_world)), session_id = ''uuid0'', sender = ''ai'',
                    content = reply, timestamp = clock demo_env (Suc (now_calls quiet_world)),
                    sender_type = ''ai''\<rparr>
              \<and> history ws ''uuid0'' = history quiet_world ''uuid0'' @ [ms, a]
              \<and> trace ws = trace quiet_world @
                   [Appended ''uuid0'' ms,
                    Sending UserSide ''uuid0''
                      (JObj [(''type'', JStr ''message''),
                             (''message'', JObj [(''id'', JStr (message_id ms)), (''session_id'', JStr (session_id ms)),
                                               (''sender'', JStr (sender ms)), (''content'', JStr (content ms)),
                                               (''timestamp'', JIso (timestamp ms)),
                                               (''sender_type'', JStr (sender_type ms))]),
                             (''sender'', JStr ''seller'')])
                      (Inr (attempt (user_connections (manager quiet_world) ''uuid0''))),
                    Appended ''uuid0'' a,
                    Sending SellerSide ''uuid0''
                      (JObj [(''type'', JStr ''message''),
                             (''message'', JObj [(''id'', JStr (message_id a)), (''session_id'', JStr (session_id a)),
                                               (''sender'', JStr (sender a)), (''content'', JStr (content a)),
                                               (''timestamp'', JIso (timestamp a)),
                                               (''sender_type'', JStr (sender_type a))]),
                             (''sender'', JStr ''buyer'')])
                      (Inr (attempt (seller_connections (manager quiet_world) ''uuid0''))),
                    Sending UserSide ''uuid0''
                      (JObj [(''type'', JStr ''ai_response''),
                             (''message'', JObj [(''id'', JStr (message_id a)), (''session_id'', JStr (session_id a)),
                                               (''sender'', JStr (sender a)), (''content'', JStr (content a)),
                                               (''timestamp'', JIso (timestamp a)),
                                               (''sender_type'', JStr (sender_type a))]),
                             (''sender'', JStr ''ai'')])
                      (Inr (attempt (user_connections (manager quiet_world) ''uuid0'')))])
           \<or> (isl (generation demo_env (demo_session0\<lparr>messages := messages demo_session0 @ [ms]\<rparr>) quiet_world)
              \<and> history ws ''uuid0'' = history quiet_world ''uuid0'' @ [ms]
              \<and> trace ws = trace quiet_world @
                   [Appended ''uuid0'' ms,
                    Sending UserSide ''uuid0''
                      (JObj [(''type'', JStr ''message''),
                             (''message'', JObj [(''id'', JStr (message_id ms)), (''session_id'', JStr (session_id ms)),
                                               (''sender'', JStr (sender ms)), (''content'', JStr (content ms)),
                                               (''timestamp'', JIso (timestamp ms)),
                                               (''sender_type'', JStr (sender_type ms))]),
                             (''sender'', JStr ''seller'')])
                      (Inr (attempt (user_connections (manager quiet_world) ''uuid0''))),
                    Sending UserSide ''uuid0''
                      (JObj [(''type'', JStr ''error''), (''message'', JStr ''Failed to generate AI response'')])
                      (Inr (attempt (user_connections (manager quiet_world) ''uuid0'')))])"
    by blast
  have ms: "ms = ?cs"
    using seller(2) by (simp add: content uuid0 now0)
  from alt obtain a where a:
    "a = \<lparr>message_id = uuid4 demo_env (Suc (uuid_calls quiet_world)), session_id = ''uuid0'', sender = ''ai'',
          content = ''Would 5,000 work for you?'', timestamp = clock demo_env (Suc (now_calls quiet_world)),
          sender_type = ''ai''\<rparr>"
    "history ws ''uuid0'' = history quiet_world ''uuid0'' @ [ms, a]"
    "trace ws = trace quiet_world @
                   [Appended ''uuid0'' ms,
                    Sending UserSide ''uuid0''
                      (JObj [(''type'', JStr ''message''),
                             (''message'', JObj [(''id'', JStr (message_id ms)), (''session_id'', JStr (session_id ms)),
                                               (''sender'', JStr (sender ms)), (''content'', JStr (content ms)),
                                               (''timestamp'', JIso (timestamp ms)),
                                               (''sender_type'', JStr (sender_type ms))]),
                             (''sender'', JStr ''seller'')])
                      (Inr (attempt (user_connections (manager quiet_world) ''uuid0''))),
                    Appended ''uuid0'' a,
                    Sending SellerSide ''uuid0''
                      (JObj [(''type'', JStr ''message''),
                             (''message'', JObj [(''id'', JStr (message_id a)), (''session_id'', JStr (session_id a)),
                                               (''sender'', JStr (sender a)), (''content'', JStr (content a)),
                                               (''timestamp'', JIso (timestamp a)),
                                               (''sender_type'', JStr (sender_type a))]),
                             (''sender'', JStr ''buyer'')])
                      (Inr (attempt (seller_connections (manager quiet_world) ''uuid0''))),
                    Sending UserSide ''uuid0''
                      (JObj [(''type'', JStr ''ai_response''),
                             (''message'', JObj [(''id'', JStr (message_id a)), (''session_id'', JStr (session_id a)),
                                               (''sender'', JStr (sender a)), (''content'', JStr (content a)),
                                               (''timestamp'', JIso (timestamp a)),
                                               (''sender_type'', JStr (sender_type a))]),
                             (''sender'', JStr ''ai'')])
                      (Inr (attempt (user_connections (manager quiet_world) ''uuid0'')))]"
    by (auto simp add: quiet_generation)
  have a': "a = ?ca"
    using a(1) by (simp add: uuid1 now1)
  have seller_part: "\<exists>w'. handle_seller_message demo_env ''uuid0'' [(''content'', ''hi'')] quiet_world
              = (Returned, w')
        \<and> history w' ''uuid0'' = [?cs, ?ca]
        \<and> trace w'
            = [Appended ''uuid0'' ?cs,
               Sending UserSide ''uuid0''
                 (JObj [(''type'', JStr ''message''),
                        (''message'', JObj [(''id'', JStr ''uuid1''), (''session_id'', JStr ''uuid0''),
                                           (''sender'', JStr ''seller''), (''content'', JStr ''hi''),
                                           (''timestamp'', JIso 1001),
                                           (''sender_type'', JStr ''human'')]),
                        (''sender'', JStr ''seller'')])
                 (Inr PeerAbsent),
               Appended ''uuid0'' ?ca,
               Sending SellerSide ''uuid0''
                 (JObj [(''type'', JStr ''message''),
                        (''message'', JObj [(''id'', JStr ''uuid2''), (''session_id'', JStr ''uuid0''),
                                           (''sender'', JStr ''ai''), (''content'', JStr ''Would 5,000 work for you?''),
                                           (''timestamp'', JIso 1002),
                                           (''sender_type'', JStr ''ai'')]),
                        (''sender'', JStr ''buyer'')])
                 (Inr PeerAbsent),
               Sending UserSide ''uuid0''
                 (JObj [(''type'', JStr ''ai_response''),
                        (''message'', JObj [(''id'', JStr ''uuid2''), (''session_id'', JStr ''uuid0''),
                                           (''sender'', JStr ''ai''), (''content'', JStr ''Would 5,000 work for you?''),
                                           (''timestamp'', JIso 1002),
                                           (''sender_type'', JStr ''ai'')]),
                        (''sender'', JStr ''ai'')])
                 (Inr PeerAbsent)]"
    using seller(1) a(2,3) unfolding ms a' by (simp add: hist0 trace0 u s attempt_def)
  have s1: "fst (send_to_user ''uuid0'' error_payload (manager quiet_world)) = Inr PeerAbsent"
    and s2: "sent (snd (send_to_user ''uuid0'' error_payload (manager quiet_world)))
       = [Send UserSide ''uuid0'' error_payload PeerAbsent]"
    and s3: "fst (send_to_seller ''uuid0'' error_payload (manager quiet_world)) = Inr PeerAbsent"
    and s4: "sent (snd (send_to_seller ''uuid0'' error_payload (manager quiet_world)))
       = [Send SellerSide ''uuid0'' error_payload PeerAbsent]"
    using inst [where message_data = "[(''content'', ''hi'')]"] u s
    by (simp_all add: sent0)
  have ordered: "appended_first []
        (trace (run demo_env
           [Start demo_params, SellerMessage ''uuid0'' [(''content'', ''hi'')],
            UserMessage ''uuid0'' [(''content'', ''I can pay 5200'')]]
           (init_world demo_db demo_service)))"
    using inst [where message_data = "[(''content'', ''hi'')]"] by blast
  show ?thesis
    by (rule conjI [OF quiet_session0_active conjI [OF user_part conjI [OF seller_part
          conjI [OF s1 conjI [OF s2 conjI [OF s3 conjI [OF s4 ordered]]]]]]])
qed

section \<open>The session lifecycle: properties\<close>

text \<open>
  C3, as the code has it. After \<^verbatim>\<open>end_negotiation\<close> the session is not in the
  store, and a second call for the same session returns the same success message and
  leaves the whole state, every history included, as it is: the body of
  \<^verbatim>\<open>if session_id in active_sessions\<close> is skipped and no error is raised.
\<close>

theorem second_end_reports_success:
  "active_sessions (snd (end_negotiation e sid result w)) sid = None
   \<and> end_negotiation e sid result' (snd (end_negotiation e sid result w))
       = (Inr ''Negotiation ended successfully'', snd (end_negotiation e sid result w))"
  by (simp add: end_negotiation_evicts end_negotiation_absent)

text \<open>In the scenario: the first call ends the session, the second finds no history.\<close>

theorem second_end_reports_success_witness:
  "fst (end_negotiation demo_env ''uuid0'' [(''outcome'', JStr ''deal''), (''final_price'', JNum 5200)] demo_world)
     = Inr ''Negotiation ended successfully''
   \<and> history (snd (end_negotiation demo_env ''uuid0'' [(''outcome'', JStr ''deal'')]
        (snd (end_negotiation demo_env ''uuid0''
           [(''outcome'', JStr ''deal''), (''final_price'', JNum 5200)] demo_world)))) ''uuid0'' = []"
  using second_end_reports_success [of demo_env "''uuid0''"
          "[(''outcome'', JStr ''deal''), (''final_price'', JNum 5200)]" demo_world
          "[(''outcome'', JStr ''deal'')]"]
  by (simp add: history_def end_negotiation_active [OF demo_session0_active])

text \<open>
  The error of the specification does not occur in the scenario: the session is
  active, it is ended, and the second call reports success.
\<close>

theorem second_end_is_no_error:
  "active_sessions demo_world ''uuid0'' = Some demo_session0
   \<and> fst (end_negotiation demo_env ''uuid0'' [(''outcome'', JStr ''deal'')]
        (snd (end_negotiation demo_env ''uuid0'' [(''outcome'', JStr ''deal'')] demo_world)))
       = Inr ''Negotiation ended successfully''"
  by (simp add: demo_session0_active end_negotiation_evicts end_negotiation_absent)

text \<open>
  C6, as the code has it. \<^verbatim>\<open>start_negotiation\<close> never compares the target price
  with the maximum budget. It succeeds exactly when the product is in the catalogue,
  whatever the prices are; the session it then returns the identifier of is in the
  store, with the given parameters, status \<open>active\<close> and an empty history.
\<close>

theorem start_succeeds_iff_product_known:
  "(case start_negotiation e params w of
      (Inr response, w') \<Rightarrow>
         get_product (db w) (product_id params) = Some (response_product response)
         \<and> (\<exists>session. active_sessions w' (response_session_id response) = Some session
               \<and> session_ident session = response_session_id response
               \<and> user_params session = params
               \<and> status session = ''active'' \<and> messages session = [])
    | (Inl exc, w') \<Rightarrow> get_product (db w) (product_id params) = None)"
proof -
  have "start_negotiation e params w
          = (fst (start_negotiation e params w), snd (start_negotiation e params w))"
    by simp
  then show ?thesis
    unfolding start_negotiation_result start_negotiation_state
    by (cases "get_product (db w) (product_id params)") simp_all
qed

theorem start_succeeds_iff_product_known_witness:
  "(\<exists>w'. start_negotiation demo_env
            \<lparr>product_id = ''p1'', target_price = 7000, max_budget = 6000, approach = Enum DIPLOMATIC\<rparr>
            (init_world demo_db demo_service)
          = (Inr \<lparr>response_session_id = ''uuid0'',
                   response_message = ''Negotiation session started successfully'',
                   response_product = demo_product\<rparr>, w')
        \<and> (\<exists>session. active_sessions w' ''uuid0'' = Some session
               \<and> status session = ''active'' \<and> messages session = []))"
proof -
  let ?params = "\<lparr>product_id = ''p1'', target_price = 7000, max_budget = 6000, approach = Enum DIPLOMATIC\<rparr>"
  have r: "fst (start_negotiation demo_env ?params (init_world demo_db demo_service))
      = Inr \<lparr>response_session_id = ''uuid0'',
              response_message = ''Negotiation session started successfully'',
              response_product = demo_product\<rparr>"
    by (simp add: start_negotiation_result get_product_def init_world_def demo_db_def demo_env_def
          digit_char_def)
  obtain w' where w': "start_negotiation demo_env ?params (init_world demo_db demo_service)
      = (Inr \<lparr>response_session_id = ''uuid0'',
              response_message = ''Negotiation session started successfully'',
              response_product = demo_product\<rparr>, w')"
    using r by (metis prod.collapse)
  show ?thesis
    using start_succeeds_iff_product_known [where e = demo_env and params = ?params
            and w = "init_world demo_db demo_service"]
    unfolding w' by auto
qed

text \<open>
  In the scenario a target price above the maximum budget is accepted, and a target
  price below it is refused when the product is unknown.
\<close>

theorem start_accepts_target_above_budget:
  "fst (start_negotiation demo_env
          \<lparr>product_id = ''p1'', target_price = 7000, max_budget = 6000, approach = Enum DIPLOMATIC\<rparr>
          (init_world demo_db demo_service))
     = Inr \<lparr>response_session_id = ''uuid0'',
             response_message = ''Negotiation session started successfully'',
             response_product = demo_product\<rparr>
   \<and> fst (start_negotiation demo_env
          \<lparr>product_id = ''p9'', target_price = 5000, max_budget = 6000, approach = Enum DIPLOMATIC\<rparr>
          (init_world demo_db demo_service))
     = Inl (HTTPException 500 (StrOf (HTTPException 404 (Detail ''Product not found''))))"
  by (simp add: start_negotiation_result get_product_def init_world_def demo_db_def demo_env_def
        digit_char_def)

section \<open>Histories over runs\<close>

text \<open>
  Every call keeps \<open>timestamps_ok\<close> when the clock is monotone: the messages a
  handler appends carry the readings the call takes, in their order. A relay call on
  an active session extends the inbound history of that session by its own message and
  leaves the inbound history of every other session alone.
\<close>

lemma timestamps_ok_init: "timestamps_ok e (init_world d svc)"
  by (simp add: timestamps_ok_def init_world_def)

lemma timestamps_ok_start:
  assumes "timestamps_ok e w" and "monotone_clock e"
  shows "timestamps_ok e (snd (start_negotiation e params w))"
  using assms unfolding timestamps_ok_def start_negotiation_state
  by (auto simp add: Suc_leD)

lemma timestamps_ok_end:
  assumes "timestamps_ok e w" and "monotone_clock e"
  shows "timestamps_ok e (snd (end_negotiation e sid result w))"
proof (cases "active_sessions w sid")
  case None
  with assms show ?thesis by (simp add: end_negotiation_absent)
next
  case (Some session)
  with assms show ?thesis
    unfolding timestamps_ok_def by (auto simp add: end_negotiation_active Suc_leD)
qed

lemma timestamps_ok_append:
  assumes ok: "timestamps_ok e w" and mono: "monotone_clock e"
    and active: "active_sessions w sid = Some session"
    and store: "active_sessions w' = (active_sessions w)(sid \<mapsto> session\<lparr>messages := messages session @ new\<rparr>)"
    and stamps: "map timestamp new = map (clock e) [now_calls w ..< now_calls w']"
    and later: "now_calls w \<le> now_calls w'"
  shows "timestamps_ok e w'"
  unfolding timestamps_ok_def
proof (intro allI impI)
  fix sid' session'
  assume a: "active_sessions w' sid' = Some session'"
  have old: "sorted (map timestamp (messages session))"
    "\<And>m j. m \<in> set (messages session) \<Longrightarrow> now_calls w \<le> j \<Longrightarrow> timestamp m \<le> clock e j"
    using ok active unfolding timestamps_ok_def by blast+
  have clock_mono: "\<And>i j. i \<le> j \<Longrightarrow> clock e i \<le> clock e j"
    using mono unfolding monotone_clock_def by blast
  have sorted_new: "sorted (map timestamp new)"
    unfolding stamps by (simp add: sorted_map sorted_wrt_iff_nth_less clock_mono)
  have read: "\<forall>m \<in> set new. \<exists>i. now_calls w \<le> i \<and> i < now_calls w' \<and> timestamp m = clock e i"
  proof
    fix m assume "m \<in> set new"
    then have "timestamp m \<in> set (map timestamp new)" by simp
    then have "timestamp m \<in> clock e ` {now_calls w ..< now_calls w'}"
      unfolding stamps by simp
    then show "\<exists>i. now_calls w \<le> i \<and> i < now_calls w' \<and> timestamp m = clock e i" by auto
  qed
  show "sorted (map timestamp (messages session'))
        \<and> (\<forall>m \<in> set (messages session'). \<forall>j \<ge> now_calls w'. timestamp m \<le> clock e j)"
  proof (cases "sid' = sid")
    case True
    with a store have s': "messages session' = messages session @ new" by auto
    have cross: "\<forall>x \<in> set (messages session). \<forall>y \<in> set new. timestamp x \<le> timestamp y"
    proof (intro ballI)
      fix x y assume x: "x \<in> set (messages session)" and y: "y \<in> set new"
      from read y obtain i where i: "now_calls w \<le> i" "timestamp y = clock e i" by blast
      from old(2) [OF x i(1)] i(2) show "timestamp x \<le> timestamp y" by simp
    qed
    have bound: "\<forall>m \<in> set (messages session'). \<forall>j \<ge> now_calls w'. timestamp m \<le> clock e j"
    proof (intro ballI allI impI)
      fix m j assume m: "m \<in> set (messages session')" and j: "now_calls w' \<le> j"
      from m s' consider "m \<in> set (messages session)" | "m \<in> set new" by auto
      then show "timestamp m \<le> clock e j"
      proof cases
        case 1
        from later j have "now_calls w \<le> j" by simp
        from old(2) [OF 1 this] show ?thesis .
      next
        case 2
        with read obtain i where i: "i < now_calls w'" "timestamp m = clock e i" by blast
        from i(1) j have "i \<le> j" by simp
        from clock_mono [OF this] i(2) show ?thesis by simp
      qed
    qed
    from old(1) sorted_new cross have "sorted (map timestamp (messages session'))"
      unfolding s' by (auto simp add: sorted_append)
    with bound show ?thesis by blast
  next
    case False
    with a store have "active_sessions w sid' = Some session'" by simp
    with ok have "sorted (map timestamp (messages session'))"
      and b: "\<forall>m \<in> set (messages session'). \<forall>j \<ge> now_calls w. timestamp m \<le> clock e j"
      unfolding timestamps_ok_def by blast+
    moreover from b later have "\<forall>m \<in> set (messages session'). \<forall>j \<ge> now_calls w'. timestamp m \<le> clock e j"
      by (meson le_trans)
    ultimately show ?thesis by blast
  qed
qed

lemma timestamps_ok_user:
  assumes "timestamps_ok e w" and "monotone_clock e"
  shows "timestamps_ok e (snd (handle_user_message e sid message_data w))"
proof (cases "active_sessions w sid")
  case None
  with assms show ?thesis by (simp add: handle_user_message_def)
next
  case (Some session)
  show ?thesis
    by (rule timestamps_ok_append [OF assms Some,
          where new = "[\<lparr>message_id = uuid4 e (uuid_calls w), session_id = sid, sender = ''user'',
              content = get_content message_data, timestamp = clock e (now_calls w),
              sender_type = ''override''\<rparr>]"])
       (simp_all add: handle_user_message_active [OF Some])
qed

lemma timestamps_ok_seller:
  assumes "timestamps_ok e w" and mono: "monotone_clock e"
  shows "timestamps_ok e (snd (handle_seller_message e sid message_data w))"
proof (cases "active_sessions w sid")
  case None
  with assms show ?thesis by (simp add: handle_seller_message_def)
next
  case (Some session)
  let ?m = "\<lparr>message_id = uuid4 e (uuid_calls w), session_id = sid, sender = ''seller'',
             content = get_content message_data, timestamp = clock e (now_calls w),
             sender_type = ''human''\<rparr>"
  have step: "clock e (now_calls w) \<le> clock e (Suc (now_calls w))"
    using mono unfolding monotone_clock_def by simp
  show ?thesis
  proof (cases "generation e (session\<lparr>messages := messages session @ [?m]\<rparr>) w")
    case (Inl exc)
    show ?thesis
      by (rule timestamps_ok_append [OF assms Some, where new = "[?m]"])
         (simp_all add: handle_seller_message_active [OF Some] Inl)
  next
    case (Inr reply)
    show ?thesis
      by (rule timestamps_ok_append [OF assms Some,
            where new = "[?m, \<lparr>message_id = uuid4 e (Suc (uuid_calls w)), session_id = sid,
               sender = ''ai'', content = reply, timestamp = clock e (Suc (now_calls w)),
               sender_type = ''ai''\<rparr>]"])
         (simp_all add: handle_seller_message_active [OF Some] Inr step)
  qed
qed

lemma timestamps_ok_step:
  assumes "timestamps_ok e w" and "monotone_clock e"
  shows "timestamps_ok e (step e c w)"
proof (cases c)
  case (Start params)
  with assms show ?thesis by (simp add: timestamps_ok_start)
next
  case (End sid result)
  with assms show ?thesis by (simp add: timestamps_ok_end)
next
  case (UserMessage sid message_data)
  with assms show ?thesis by (simp add: timestamps_ok_user)
next
  case (SellerMessage sid message_data)
  with assms show ?thesis by (simp add: timestamps_ok_seller)
next
  case (ConnectUser websocket sid)
  with assms show ?thesis by (simp add: timestamps_ok_def)
next
  case (ConnectSeller websocket sid)
  with assms show ?thesis by (simp add: timestamps_ok_def)
qed

lemma timestamps_ok_run:
  "timestamps_ok e w \<Longrightarrow> monotone_clock e \<Longrightarrow> timestamps_ok e (run e cs w)"
  by (induction cs arbitrary: w) (simp_all add: timestamps_ok_step)

lemma sorted_history:
  "timestamps_ok e w \<Longrightarrow> sorted (map timestamp (history w sid))"
  by (simp add: timestamps_ok_def history_def split: option.split)

lemma inbound_history_append:
  "inbound_history (xs @ ys) = inbound_history xs @ inbound_history ys"
  by (simp add: inbound_history_def)

lemma history_other_user:
  "sid' \<noteq> sid \<Longrightarrow> active_sessions (snd (handle_user_message e sid' message_data w)) sid = active_sessions w sid"
proof (cases "active_sessions w sid'")
  case None
  then show ?thesis by (simp add: handle_user_message_def)
next
  case (Some session)
  assume "sid' \<noteq> sid"
  then show ?thesis by (simp add: handle_user_message_active [OF Some])
qed

lemma history_other_seller:
  "sid' \<noteq> sid \<Longrightarrow> active_sessions (snd (handle_seller_message e sid' message_data w)) sid = active_sessions w sid"
proof (cases "active_sessions w sid'")
  case None
  then show ?thesis by (simp add: handle_seller_message_def)
next
  case (Some session)
  assume "sid' \<noteq> sid"
  then show ?thesis by (simp add: handle_seller_message_active [OF Some] split: sum.split)
qed

lemma relay_step:
  assumes "relay_call c" and "active_sessions w sid \<noteq> None"
  shows "active_sessions (step e c w) sid \<noteq> None
       \<and> inbound_history (history (step e c w) sid) = inbound_history (history w sid) @ inbound sid c"
proof -
  from assms(2) obtain session where s: "active_sessions w sid = Some session" by blast
  show ?thesis
  proof (cases c)
    case (UserMessage sid' message_data)
    show ?thesis
    proof (cases "sid' = sid")
      case True
      with UserMessage s show ?thesis
        by (simp add: handle_user_message_active [OF s] history_def inbound_history_def)
    next
      case False
      with UserMessage s show ?thesis
        by (simp add: history_other_user history_def)
    qed
  next
    case (SellerMessage sid' message_data)
    show ?thesis
    proof (cases "sid' = sid")
      case True
      with SellerMessage s show ?thesis
        by (simp add: handle_seller_message_active [OF s] history_def inbound_history_def
              split: sum.split)
    next
      case False
      with SellerMessage s show ?thesis
        by (simp add: history_other_seller history_def)
    qed
  qed (use assms(1) in simp_all)
qed

lemma relay_run:
  "list_all relay_call cs \<Longrightarrow> active_sessions w sid \<noteq> None \<Longrightarrow>
     inbound_history (history (run e cs w) sid)
       = inbound_history (history w sid) @ concat (map (inbound sid) cs)"
proof (induction cs arbitrary: w)
  case Nil
  then show ?case by simp
next
  case (Cons c cs)
  from Cons.prems have c: "relay_call c" and cs: "list_all relay_call cs" by simp_all
  from relay_step [OF c Cons.prems(2), of e]
  have a: "active_sessions (step e c w) sid \<noteq> None"
    and h: "inbound_history (history (step e c w) sid) = inbound_history (history w sid) @ inbound sid c"
    by blast+
  from Cons.IH [OF cs a] h show ?case by simp
qed

lemma monotone_demo: "monotone_clock demo_env"
  by (simp add: monotone_clock_def demo_env_def)

text \<open>
  C7, as the code has it. The timestamps are readings of \<^verbatim>\<open>datetime.now()\<close>, taken
  when a message is created. If the clock never runs backwards, then after any run of
  the process every history is in the order of its timestamps; and, whatever the clock
  does, the inbound messages of a session's history are, in this order, those of the
  relay calls accepted for the session.
\<close>

theorem history_is_in_clock_and_call_order:
  "(monotone_clock e \<longrightarrow>
      sorted (map timestamp (history (run e cs (init_world d svc)) sid)))
   \<and> (list_all relay_call cs' \<and> active_sessions w sid \<noteq> None \<longrightarrow>
        inbound_history (history (run e cs' w) sid)
          = inbound_history (history w sid) @ concat (map (inbound sid) cs'))"
proof -
  have "sorted (map timestamp (history (run e cs (init_world d svc)) sid))"
    if mono: "monotone_clock e"
  proof -
    have "timestamps_ok e (run e cs (init_world d svc))"
      using timestamps_ok_init mono by (rule timestamps_ok_run)
    then show ?thesis by (rule sorted_history)
  qed
  then show ?thesis
    using relay_run by blast
qed

theorem history_is_in_clock_and_call_order_witness:
  "monotone_clock demo_env
   \<and> sorted (map timestamp (history (run demo_env
        [SellerMessage ''uuid0'' [(''content'', ''hi'')],
         UserMessage ''uuid0'' [(''content'', ''I can pay 5200'')],
         SellerMessage ''uuid0'' [(''content'', ''5500 is my last price'')]] demo_world) ''uuid0''))
   \<and> inbound_history (history (run demo_env
        [SellerMessage ''uuid0'' [(''content'', ''hi'')],
         UserMessage ''uuid0'' [(''content'', ''I can pay 5200'')],
         SellerMessage ''uuid7'' [(''content'', ''other session'')],
         SellerMessage ''uuid0'' [(''content'', ''5500 is my last price'')]] demo_world) ''uuid0'')
       = [(''seller'', ''hi''), (''user'', ''I can pay 5200''), (''seller'', ''5500 is my last price'')]"
proof -
  have r: "run demo_env
        [SellerMessage ''uuid0'' [(''content'', ''hi'')],
         UserMessage ''uuid0'' [(''content'', ''I can pay 5200'')],
         SellerMessage ''uuid0'' [(''content'', ''5500 is my last price'')]] demo_world
      = run demo_env ([Start demo_params, ConnectUser 1 ''uuid0'', ConnectSeller 2 ''uuid0''] @
        [SellerMessage ''uuid0'' [(''content'', ''hi'')],
         UserMessage ''uuid0'' [(''content'', ''I can pay 5200'')],
         SellerMessage ''uuid0'' [(''content'', ''5500 is my last price'')]])
         (init_world demo_db demo_service)"
    by (simp add: demo_world_def)
  have a: "active_sessions demo_world ''uuid0'' \<noteq> None"
    by (simp add: demo_session0_active)
  have h: "inbound_history (history demo_world ''uuid0'') = []"
    by (simp add: history_def demo_session0_active demo_session0_def inbound_history_def)
  show ?thesis
    unfolding r
    using a h monotone_demo
      history_is_in_clock_and_call_order [where e = demo_env and cs = "[Start demo_params, ConnectUser 1 ''uuid0'', ConnectSeller 2 ''uuid0''] @
        [SellerMessage ''uuid0'' [(''content'', ''hi'')],
         UserMessage ''uuid0'' [(''content'', ''I can pay 5200'')],
         SellerMessage ''uuid0'' [(''content'', ''5500 is my last price'')]]"
        and d = demo_db and svc = demo_service and sid = "''uuid0''" and w = demo_world
        and cs' = "[SellerMessage ''uuid0'' [(''content'', ''hi'')],
         UserMessage ''uuid0'' [(''content'', ''I can pay 5200'')],
         SellerMessage ''uuid7'' [(''content'', ''other session'')],
         SellerMessage ''uuid0'' [(''content'', ''5500 is my last price'')]]"]
    by (simp add: get_content_def)
qed

text \<open>
  With a clock that is set back between two readings, two override messages get the
  timestamps 9 and 8: the history is not in the order of its timestamps.
\<close>

theorem clock_set_back_breaks_timestamp_order:
  "\<not> sorted (map timestamp (history (run backwards_env
        [Start demo_params,
         UserMessage ''uuid0'' [(''content'', ''first'')],
         UserMessage ''uuid0'' [(''content'', ''second'')]]
        (init_world demo_db demo_service)) ''uuid0''))"
proof -
  have "map timestamp (history (run backwards_env
        [Start demo_params,
         UserMessage ''uuid0'' [(''content'', ''first'')],
         UserMessage ''uuid0'' [(''content'', ''second'')]]
        (init_world demo_db demo_service)) ''uuid0'') = [9, 8]"
    by (simp add: history_def init_world_def backwards_env_def demo_env_def demo_db_def
          demo_params_def start_negotiation_state handle_user_message_def new_uuid_def
          datetime_now_def append_message_def db_save_def to_seller_def send_to_seller_def
          save_session_def digit_char_def Let_def)
  then show ?thesis by simp
qed

end
